theory Spec2Isabelle
  imports Complex_Main "HOL-Library.AList"
begin

section \<open>Python values\<close>

text \<open>
  The outputter of \<^verbatim>\<open>salt/output/highstate.py\<close> works on JSON-like data: \<^verbatim>\<open>None\<close>, booleans,
  integers, floats, strings, lists and dictionaries with string keys. A dictionary is an
  association list in insertion order (Python dictionaries iterate in insertion order, and
  the order decides ties when the records are sorted). A float is modelled by the rational
  it denotes, with exact arithmetic; characters are code points below 256.
\<close>

datatype pyval =
    PNone
  | PBool bool
  | PInt int
  | PFloat rat
  | PStr string
  | PList "pyval list"
  | PDict "(string \<times> pyval) list"

text \<open>
  Exceptions are values. \<open>RecursionError\<close> is what the interpreter raises when the nesting of
  renders exceeds its recursion limit; \<open>Unmodelled\<close> marks a run that leaves the JSON-like
  fragment (for instance a dictionary key that is not a string) and is never a Python
  exception.
\<close>

datatype exc = KeyError | TypeError | AttributeError | IndexError | ValueError
  | ZeroDivisionError | RecursionError | Unmodelled

type_synonym 'a res = "exc + 'a"

definition bnd :: "'a res \<Rightarrow> ('a \<Rightarrow> 'b res) \<Rightarrow> 'b res" where
  "bnd m f = (case m of Inl e \<Rightarrow> Inl e | Inr x \<Rightarrow> f x)"

definition is_dict :: "pyval \<Rightarrow> bool" where
  "is_dict v = (case v of PDict _ \<Rightarrow> True | _ \<Rightarrow> False)"

definition has_key :: "(string \<times> pyval) list \<Rightarrow> string \<Rightarrow> bool" where
  "has_key kv k = (map_of kv k \<noteq> None)"

definition py_endswith :: "string \<Rightarrow> string \<Rightarrow> bool" where
  "py_endswith s suf = (length suf \<le> length s \<and> drop (length s - length suf) s = suf)"

definition py_startswith :: "string \<Rightarrow> string \<Rightarrow> bool" where
  "py_startswith s pre = (take (length pre) s = pre)"

definition py_truthy :: "pyval \<Rightarrow> bool" where
  "py_truthy v =
     (case v of
        PNone \<Rightarrow> False
      | PBool b \<Rightarrow> b
      | PInt i \<Rightarrow> i \<noteq> 0
      | PFloat r \<Rightarrow> r \<noteq> 0
      | PStr s \<Rightarrow> s \<noteq> []
      | PList xs \<Rightarrow> xs \<noteq> []
      | PDict kv \<Rightarrow> kv \<noteq> [])"

text \<open>\<^verbatim>\<open>d[k]\<close> on a dictionary, and on any value (a string key fits no list, string or scalar).\<close>

definition getitem :: "(string \<times> pyval) list \<Rightarrow> string \<Rightarrow> pyval res" where
  "getitem kv k = (case map_of kv k of Some v \<Rightarrow> Inr v | None \<Rightarrow> Inl KeyError)"

definition py_getitem :: "pyval \<Rightarrow> string \<Rightarrow> pyval res" where
  "py_getitem v k = (case v of PDict kv \<Rightarrow> getitem kv k | _ \<Rightarrow> Inl TypeError)"

definition nth_res :: "'a list \<Rightarrow> nat \<Rightarrow> 'a res" where
  "nth_res xs i = (if i < length xs then Inr (xs ! i) else Inl IndexError)"

section \<open>Strings\<close>

definition nl :: char where
  "nl = CHR 0x0A"

definition digit_char :: "nat \<Rightarrow> char" where
  "digit_char d = char_of (48 + d)"

fun str_nat :: "nat \<Rightarrow> string" where
  "str_nat n = (if n < 10 then [digit_char n] else str_nat (n div 10) @ [digit_char (n mod 10)])"

declare str_nat.simps [simp del]

definition str_int :: "int \<Rightarrow> string" where
  "str_int i = (if i < 0 then CHR ''-'' # str_nat (nat (- i)) else str_nat (nat i))"

text \<open>\<^verbatim>\<open>sep.join(xs)\<close>\<close>

fun join_str :: "string \<Rightarrow> string list \<Rightarrow> string" where
  "join_str sep [] = []"
| "join_str sep [x] = x"
| "join_str sep (x # y # ys) = x @ sep @ join_str sep (y # ys)"

text \<open>\<^verbatim>\<open>s.rjust(w)\<close> and \<^verbatim>\<open>s.ljust(w)\<close>, which are the format specs \<^verbatim>\<open>:>w\<close> and \<^verbatim>\<open>:<w\<close> on a string.\<close>

definition rjust :: "nat \<Rightarrow> string \<Rightarrow> string" where
  "rjust w s = replicate (w - length s) CHR '' '' @ s"

definition ljust :: "nat \<Rightarrow> string \<Rightarrow> string" where
  "ljust w s = s @ replicate (w - length s) CHR '' ''"

text \<open>\<^verbatim>\<open>s.split(sep)\<close> for a non-empty separator: cut at every occurrence, left to right.\<close>

function split_aux :: "string \<Rightarrow> string \<Rightarrow> string \<Rightarrow> string list" where
  "split_aux sep cur [] = [rev cur]"
| "split_aux sep cur (c # cs) =
     (if sep \<noteq> [] \<and> take (length sep) (c # cs) = sep
      then rev cur # split_aux sep [] (drop (length sep) (c # cs))
      else split_aux sep (c # cur) cs)"
  by pat_completeness auto
termination
  by (relation "measure (\<lambda>(sep, cur, s). length s)") auto

definition py_split :: "string \<Rightarrow> string \<Rightarrow> string list" where
  "py_split sep s = split_aux sep [] s"

text \<open>\<^verbatim>\<open>sub in s\<close> on strings.\<close>

fun is_substring :: "string \<Rightarrow> string \<Rightarrow> bool" where
  "is_substring sub [] = (sub = [])"
| "is_substring sub (c # cs) = (take (length sub) (c # cs) = sub \<or> is_substring sub cs)"

text \<open>The first component of \<^verbatim>\<open>s.partition(sep)\<close>: the text before the first occurrence.\<close>

fun partition_head :: "string \<Rightarrow> string \<Rightarrow> string" where
  "partition_head sep [] = []"
| "partition_head sep (c # cs) =
     (if take (length sep) (c # cs) = sep then [] else c # partition_head sep cs)"

text \<open>\<^verbatim>\<open>s.lower()\<close> as far as the prefix and suffix tests on the mode name can see it.\<close>

definition lower_char :: "char \<Rightarrow> char" where
  "lower_char c =
     (if (65::nat) \<le> of_char c \<and> of_char c \<le> (90::nat) then char_of (of_char c + (32::nat)) else c)"

definition py_lower :: "string \<Rightarrow> string" where
  "py_lower s = map lower_char s"

text \<open>Python's white space among the code points below 256, for \<^verbatim>\<open>strip\<close> and \<^verbatim>\<open>lstrip\<close>.\<close>

definition is_space :: "char \<Rightarrow> bool" where
  "is_space c = ((of_char c :: nat) \<in> {9, 10, 11, 12, 13, 28, 29, 30, 31, 32, 133, 160})"

definition py_lstrip :: "string \<Rightarrow> string" where
  "py_lstrip s = dropWhile is_space s"

definition py_strip :: "string \<Rightarrow> string" where
  "py_strip s = rev (dropWhile is_space (rev (dropWhile is_space s)))"

text \<open>\<^verbatim>\<open>s.replace("\n", "\n" + pad)\<close>\<close>

definition indent_newlines :: "string \<Rightarrow> string \<Rightarrow> string" where
  "indent_newlines pad s = concat (map (\<lambda>c. if c = nl then nl # pad else [c]) s)"

text \<open>
  \<^verbatim>\<open>re.sub("^", pad, s, flags=re.MULTILINE)\<close>: the pad goes in at the start of the string and
  after every newline, also after a newline that ends the string.
\<close>

definition indent_lines :: "string \<Rightarrow> string \<Rightarrow> string" where
  "indent_lines pad s = pad @ indent_newlines pad s"

text \<open>
  \<^verbatim>\<open>s.splitlines()\<close>: the line ends are \<^verbatim>\<open>\n\<close>, \<^verbatim>\<open>\r\<close>, \<^verbatim>\<open>\r\n\<close>, \<^verbatim>\<open>\v\<close>, \<^verbatim>\<open>\f\<close>, the
  separators 28 to 30 and NEL (133); a final line end opens no empty line.
\<close>

definition is_linebreak :: "char \<Rightarrow> bool" where
  "is_linebreak c = ((of_char c :: nat) \<in> {10, 11, 12, 13, 28, 29, 30, 133})"

fun splitlines_aux :: "string \<Rightarrow> string \<Rightarrow> string list" where
  "splitlines_aux cur [] = (if cur = [] then [] else [rev cur])"
| "splitlines_aux cur [c] = (if is_linebreak c then [rev cur] else [rev (c # cur)])"
| "splitlines_aux cur (c # d # cs) =
     (if of_char c = (13::nat) \<and> of_char d = (10::nat) then rev cur # splitlines_aux [] cs
      else if is_linebreak c then rev cur # splitlines_aux [] (d # cs)
      else splitlines_aux (c # cur) (d # cs))"

definition py_splitlines :: "string \<Rightarrow> string list" where
  "py_splitlines s = splitlines_aux [] s"

section \<open>The collaborators outside the module, and the options\<close>

text \<open>
  What the module calls and does not define is a parameter of the model: the colour table of
  \<^verbatim>\<open>salt.utils.color.get_colors\<close>, \<^verbatim>\<open>repr\<close> of floats, lists and dictionaries,
  \<^verbatim>\<open>pprint.pformat\<close>, the nested outputter \<^verbatim>\<open>salt.output.out_format\<close>,
  \<^verbatim>\<open>salt.output.strip_esc_sequence\<close>, \<^verbatim>\<open>textwrap.TextWrapper.fill\<close> (width 80, indent 14),
  \<^verbatim>\<open>float\<close> of a string (\<open>None\<close> is \<^verbatim>\<open>ValueError\<close>), the format spec \<^verbatim>\<open>{:.3f}\<close>, and
  \<^verbatim>\<open>str.format\<close> on a template that the user supplies in \<^verbatim>\<open>state_tabular\<close>.
\<close>

record env =
  colors :: "string \<Rightarrow> string"
  py_repr :: "pyval \<Rightarrow> string"
  pformat :: "pyval \<Rightarrow> string"
  nested_out :: "pyval \<Rightarrow> string"
  strip_esc :: "string \<Rightarrow> string"
  wrap_fill :: "string \<Rightarrow> string"
  float_of_str :: "string \<Rightarrow> rat option"
  fmt_3f :: "rat \<Rightarrow> string"
  custom_fmt :: "string \<Rightarrow> string list \<Rightarrow> pyval \<Rightarrow> string res"

text \<open>
  \<^verbatim>\<open>__opts__\<close>, with every flag read through \<^verbatim>\<open>get\<close> already resolved to its truth value and
  \<^verbatim>\<open>state_output\<close> to its string (\<^verbatim>\<open>full\<close> when it is not set).
\<close>

record opts =
  state_verbose :: bool
  state_output :: string
  state_output_diff :: bool
  state_tabular :: pyval
  state_output_pct :: bool
  state_compress_ids :: bool
  state_output_profile :: bool
  state_output_exclude :: pyval
  state_output_terse :: pyval
  arg :: "pyval list"
  strip_colors :: bool

text \<open>\<^verbatim>\<open>str(v)\<close>\<close>

definition py_str :: "env \<Rightarrow> pyval \<Rightarrow> string" where
  "py_str e v =
     (case v of
        PNone \<Rightarrow> ''None''
      | PBool b \<Rightarrow> (if b then ''True'' else ''False'')
      | PInt i \<Rightarrow> str_int i
      | PStr s \<Rightarrow> s
      | _ \<Rightarrow> py_repr e v)"

text \<open>
  \<^verbatim>\<open>sep.join(v)\<close>: a list of strings, the characters of a string or the keys of a
  dictionary; anything else is a \<^verbatim>\<open>TypeError\<close>.
\<close>

fun all_strs :: "pyval list \<Rightarrow> string list option" where
  "all_strs [] = Some []"
| "all_strs (PStr s # vs) = (case all_strs vs of Some ss \<Rightarrow> Some (s # ss) | None \<Rightarrow> None)"
| "all_strs (_ # vs) = None"

definition py_join :: "string \<Rightarrow> pyval \<Rightarrow> string res" where
  "py_join sep v =
     (case v of
        PList xs \<Rightarrow> (case all_strs xs of Some ss \<Rightarrow> Inr (join_str sep ss) | None \<Rightarrow> Inl TypeError)
      | PStr s \<Rightarrow> Inr (join_str sep (map (\<lambda>c. [c]) s))
      | PDict kv \<Rightarrow> Inr (join_str sep (map fst kv))
      | _ \<Rightarrow> Inl TypeError)"

text \<open>
  \<^verbatim>\<open>str.format\<close> copies text without braces; a brace opens a replacement field, and what it
  does with text that the data supplies is outside the model.
\<close>

definition format_literal :: "string \<Rightarrow> string res" where
  "format_literal s = (if CHR ''{'' \<in> set s \<or> CHR ''}'' \<in> set s then Inl Unmodelled else Inr s)"

section \<open>Envelope normalisation (the head of \<^verbatim>\<open>output\<close>)\<close>

text \<open>\<^verbatim>\<open>if isinstance(data, dict) and "return" in data: data = data["return"]\<close>\<close>

definition strip_return :: "pyval \<Rightarrow> pyval" where
  "strip_return data =
     (case data of
        PDict kv \<Rightarrow> (case map_of kv ''return'' of Some v \<Rightarrow> v | None \<Rightarrow> data)
      | _ \<Rightarrow> data)"

text \<open>\<^verbatim>\<open>if isinstance(data, dict) and "data" in data: data = data["data"]\<close>\<close>

definition strip_data :: "pyval \<Rightarrow> pyval" where
  "strip_data data =
     (case data of
        PDict kv \<Rightarrow> (case map_of kv ''data'' of Some v \<Rightarrow> v | None \<Rightarrow> data)
      | _ \<Rightarrow> data)"

text \<open>
  The \<^verbatim>\<open>lookup_jid\<close> envelope: a dictionary with one key whose value is a dictionary holding
  \<^verbatim>\<open>jid\<close> and \<^verbatim>\<open>fun\<close> is replaced by \<^verbatim>\<open>_data.get("return", {}).get("data", data)\<close>. The
  second \<^verbatim>\<open>get\<close> raises \<^verbatim>\<open>AttributeError\<close> when the value under \<^verbatim>\<open>return\<close> is not a
  dictionary.
\<close>

definition strip_lookup_jid :: "pyval \<Rightarrow> pyval res" where
  "strip_lookup_jid data =
     (case data of
        PDict [(k, PDict inner)] \<Rightarrow>
          (if has_key inner ''jid'' \<and> has_key inner ''fun'' then
             (case map_of inner ''return'' of
                None \<Rightarrow> Inr data
              | Some (PDict r) \<Rightarrow> (case map_of r ''data'' of Some v \<Rightarrow> Inr v | None \<Rightarrow> Inr data)
              | Some _ \<Rightarrow> Inl AttributeError)
           else Inr data)
      | _ \<Rightarrow> Inr data)"

text \<open>
  \<^verbatim>\<open>local_masters = [key for key in data.keys() if key.endswith("_master")]\<close>, and
  \<^verbatim>\<open>del data["retcode"]\<close> when the key is there and exactly one key ends in \<^verbatim>\<open>_master\<close>.
\<close>

definition local_masters :: "(string \<times> pyval) list \<Rightarrow> string list" where
  "local_masters kv = filter (\<lambda>key. py_endswith key ''_master'') (map fst kv)"

definition orchestrator_output :: "(string \<times> pyval) list \<Rightarrow> bool" where
  "orchestrator_output kv = (has_key kv ''retcode'' \<and> length (local_masters kv) = 1)"

definition drop_retcode :: "(string \<times> pyval) list \<Rightarrow> (string \<times> pyval) list" where
  "drop_retcode kv = (if orchestrator_output kv then AList.delete ''retcode'' kv else kv)"

text \<open>
  The value the renderer goes on with after lines 291 to 317: integers (booleans are
  integers in Python), strings and \<^verbatim>\<open>None\<close> leave the function at once and are kept as
  they are; a list or a float has no \<^verbatim>\<open>keys\<close> and raises.
\<close>

definition normalize_envelope :: "pyval \<Rightarrow> pyval res" where
  "normalize_envelope data =
     bnd (strip_lookup_jid (strip_data (strip_return data)))
       (\<lambda>d. case d of
          PDict kv \<Rightarrow> Inr (PDict (drop_retcode kv))
        | PList _ \<Rightarrow> Inl AttributeError
        | PFloat _ \<Rightarrow> Inl AttributeError
        | _ \<Rightarrow> Inr d)"

text \<open>
  A value still wears an envelope when one of the first three steps would replace it or
  fail on it: it has a \<^verbatim>\<open>return\<close> key or a \<^verbatim>\<open>data\<close> key, or it is a \<^verbatim>\<open>lookup_jid\<close>
  wrapper whose \<^verbatim>\<open>return\<close> entry is there and is not a dictionary without \<^verbatim>\<open>data\<close>.
\<close>

definition enveloped :: "pyval \<Rightarrow> bool" where
  "enveloped v =
     (case v of
        PDict kv \<Rightarrow>
          has_key kv ''return'' \<or> has_key kv ''data'' \<or>
          (case kv of
             [(k, PDict inner)] \<Rightarrow>
               has_key inner ''jid'' \<and> has_key inner ''fun'' \<and>
               (case map_of inner ''return'' of
                  None \<Rightarrow> False
                | Some (PDict r) \<Rightarrow> has_key r ''data''
                | Some _ \<Rightarrow> True)
           | _ \<Rightarrow> False)
      | _ \<Rightarrow> False)"

section \<open>\<^verbatim>\<open>_format_terse\<close>\<close>

definition terse_word :: "(string \<times> pyval) list \<Rightarrow> string res" where
  "terse_word ret =
     bnd (getitem ret ''changes'') (\<lambda>changes.
     let result0 = (if py_truthy changes then ''Changed'' else ''Clean'') in
     bnd (getitem ret ''result'') (\<lambda>r.
       Inr (if r = PBool False then ''Failed''
            else if r = PNone then ''Differs''
            else result0)))"

definition terse_warnings :: "env \<Rightarrow> (string \<times> pyval) list \<Rightarrow> string \<Rightarrow> string res" where
  "terse_warnings e ret tail =
     (case map_of ret ''warnings'' of
        None \<Rightarrow> Inr []
      | Some w \<Rightarrow>
          bnd (py_join [nl] w) (\<lambda>ws.
            format_literal (colors e ''LIGHT_RED'' @ ''Warnings:'' @ [nl] @ ws @ colors e ''ENDC'' @ tail)))"

definition terse_profile ::
  "env \<Rightarrow> opts \<Rightarrow> (string \<times> pyval) list \<Rightarrow> (string \<Rightarrow> string \<Rightarrow> string) \<Rightarrow> string res" where
  "terse_profile e opt ret layout =
     (if state_output_profile opt \<and> has_key ret ''start_time'' then
        bnd (getitem ret ''start_time'') (\<lambda>st.
        bnd (getitem ret ''duration'') (\<lambda>d. Inr (layout (py_str e st) (py_str e d))))
      else Inr [])"

definition format_terse ::
  "env \<Rightarrow> opts \<Rightarrow> string \<Rightarrow> string list \<Rightarrow> (string \<times> pyval) list \<Rightarrow> pyval \<Rightarrow> string res" where
  "format_terse e opt tcolor comps ret tabular =
     bnd (terse_word ret) (\<lambda>result.
     if tabular = PBool True then
       bnd (terse_warnings e ret [nl]) (\<lambda>warn.
       bnd (nth_res comps 2) (\<lambda>name.
       bnd (nth_res comps 0) (\<lambda>module.
       bnd (terse_profile e opt ret
              (\<lambda>st d. st @ '' ['' @ rjust 7 d @ '' ms] '')) (\<lambda>prof.
         Inr (warn @ tcolor @ prof @ rjust 10 module @ ''.'' @ ljust 10 (last comps) @ '' ''
              @ ljust 7 result @ ''   Name: '' @ name @ colors e ''ENDC'')))))
     else case tabular of
       PStr template \<Rightarrow>
         bnd (nth_res comps 2) (\<lambda>name.
         bnd (nth_res comps 0) (\<lambda>module.
           custom_fmt e template [tcolor, name, module, last comps, result, colors e ''ENDC'']
             (PDict ret)))
     | _ \<Rightarrow>
       bnd (terse_warnings e ret []) (\<lambda>warn.
       bnd (nth_res comps 2) (\<lambda>name.
       bnd (nth_res comps 0) (\<lambda>module.
       bnd (terse_profile e opt ret
              (\<lambda>st d. '' Started: - '' @ st @ '' Duration: '' @ d @ '' ms'')) (\<lambda>prof.
         Inr (warn @ '' '' @ tcolor @ '' Name: '' @ name @ '' - Function: '' @ module @ ''.''
              @ last comps @ '' - Result: '' @ result @ prof @ colors e ''ENDC''))))))"

section \<open>\<^verbatim>\<open>_compress_ids\<close>\<close>

text \<open>
  Numbers: \<^verbatim>\<open>bool\<close> is a subtype of \<^verbatim>\<open>int\<close>. \<^verbatim>\<open>a < b\<close> is defined between numbers and between
  strings (by code point); between lists it is outside the model, and everything else
  raises \<^verbatim>\<open>TypeError\<close>.
\<close>

definition num_of :: "pyval \<Rightarrow> rat option" where
  "num_of v =
     (case v of
        PBool b \<Rightarrow> Some (if b then 1 else 0)
      | PInt i \<Rightarrow> Some (of_int i)
      | PFloat r \<Rightarrow> Some r
      | _ \<Rightarrow> None)"

fun str_lt :: "string \<Rightarrow> string \<Rightarrow> bool" where
  "str_lt [] [] = False"
| "str_lt [] (y # ys) = True"
| "str_lt (x # xs) [] = False"
| "str_lt (x # xs) (y # ys) = (if x = y then str_lt xs ys else (of_char x :: nat) < of_char y)"

definition py_lt :: "pyval \<Rightarrow> pyval \<Rightarrow> bool res" where
  "py_lt a b =
     (case (num_of a, num_of b) of
        (Some x, Some y) \<Rightarrow> Inr (x < y)
      | _ \<Rightarrow>
        (case (a, b) of
           (PStr s, PStr t) \<Rightarrow> Inr (str_lt s t)
         | (PList _, PList _) \<Rightarrow> Inl Unmodelled
         | _ \<Rightarrow> Inl TypeError))"

text \<open>
  \<^verbatim>\<open>min(a, b)\<close> keeps \<^verbatim>\<open>a\<close> unless \<^verbatim>\<open>b < a\<close>; \<^verbatim>\<open>sorted([a, b])[0]\<close> makes the same single
  comparison and has the same value.
\<close>

definition py_min2 :: "pyval \<Rightarrow> pyval \<Rightarrow> pyval res" where
  "py_min2 a b = bnd (py_lt b a) (\<lambda>lt. Inr (if lt then b else a))"

text \<open>\<^verbatim>\<open>a + b\<close> on numbers: an integer unless one side is a float.\<close>

definition py_add :: "pyval \<Rightarrow> pyval \<Rightarrow> pyval res" where
  "py_add a b =
     (case (num_of a, num_of b) of
        (Some x, Some y) \<Rightarrow>
          (case (a, b) of
             (PFloat _, _) \<Rightarrow> Inr (PFloat (x + y))
           | (_, PFloat _) \<Rightarrow> Inr (PFloat (x + y))
           | _ \<Rightarrow> Inr (PInt (\<lfloor>x + y\<rfloor>)))
      | _ \<Rightarrow> Inl TypeError)"

text \<open>\<^verbatim>\<open>round(x, n)\<close> on a float: to the nearest multiple of \<open>10\<^sup>-\<^sup>n\<close>, a tie to the even one.\<close>

definition round_half_even :: "rat \<Rightarrow> int" where
  "round_half_even y =
     (let f = \<lfloor>y\<rfloor>; d = y - of_int f
      in if d < 1 / 2 then f else if 1 / 2 < d then f + 1 else if even f then f else f + 1)"

definition round_to :: "nat \<Rightarrow> rat \<Rightarrow> rat" where
  "round_to n r = of_int (round_half_even (r * 10 ^ n)) / 10 ^ n"

definition py_round :: "nat \<Rightarrow> pyval \<Rightarrow> pyval res" where
  "py_round n v =
     (case v of
        PFloat r \<Rightarrow> Inr (PFloat (round_to n r))
      | PInt i \<Rightarrow> Inr (PInt i)
      | PBool b \<Rightarrow> Inr (PInt (if b then 1 else 0))
      | _ \<Rightarrow> Inl TypeError)"

text \<open>\<^verbatim>\<open>round(sum([a, b]), 3)\<close>, where \<^verbatim>\<open>sum\<close> starts from the integer 0.\<close>

definition sum_round3 :: "pyval \<Rightarrow> pyval \<Rightarrow> pyval res" where
  "sum_round3 a b = bnd (py_add (PInt 0) a) (\<lambda>s. bnd (py_add s b) (py_round 3))"

text \<open>
  The identity of a record:
  \<^verbatim>\<open>"_".join(map(str, [tname.split("_|-")[0], info["__id__"], info["__sls__"], info["result"]]))\<close>
\<close>

definition first_comp :: "string \<Rightarrow> string" where
  "first_comp tname = (case py_split ''_|-'' tname of [] \<Rightarrow> [] | c # _ \<Rightarrow> c)"

definition ident_key :: "env \<Rightarrow> string \<Rightarrow> pyval \<Rightarrow> string res" where
  "ident_key e tname info =
     bnd (py_getitem info ''__id__'') (\<lambda>i.
     bnd (py_getitem info ''__sls__'') (\<lambda>s.
     bnd (py_getitem info ''result'') (\<lambda>r.
       Inr (join_str ''_'' [first_comp tname, py_str e i, py_str e s, py_str e r]))))"

fun ident_keys :: "env \<Rightarrow> (string \<times> pyval) list \<Rightarrow> string list res" where
  "ident_keys e [] = Inr []"
| "ident_keys e ((tname, info) # rest) =
     bnd (ident_key e tname info) (\<lambda>k. bnd (ident_keys e rest) (\<lambda>ks. Inr (k # ks)))"

text \<open>
  The key under which the members of a group of \<open>n\<close> are merged: the name part becomes
  \<^verbatim>\<open>state_compressed_<sls>_<id>_<result>\<close> and the ID part \<^verbatim>\<open><id> (n)\<close>; the assignment to
  \<^verbatim>\<open>comps[2]\<close> raises \<^verbatim>\<open>IndexError\<close> on a task name of fewer than three parts.
\<close>

definition compressed_name :: "env \<Rightarrow> string \<Rightarrow> pyval \<Rightarrow> nat \<Rightarrow> string res" where
  "compressed_name e tname info n =
     (let comps = py_split ''_|-'' tname in
      bnd (py_getitem info ''__sls__'') (\<lambda>s.
      bnd (py_getitem info ''__id__'') (\<lambda>i.
      bnd (py_getitem info ''result'') (\<lambda>r.
        if length comps < 3 then Inl IndexError
        else
          Inr (join_str ''_|-''
                 (comps[2 := join_str ''_'' [''state_compressed'', py_str e s, py_str e i, py_str e r],
                        1 := py_str e i @ '' ('' @ str_nat n @ '')'']))))))"

text \<open>
  The records of the host being compressed live in a store, the host's dictionary itself;
  \<^verbatim>\<open>compressed[host]\<close> maps each of its keys to the key of the input record it shares
  (\<^verbatim>\<open>compressed[host][tname] = info\<close> stores a reference, not a copy). An assignment to a field
  of \<^verbatim>\<open>compressed[host][tname]\<close> is therefore an assignment to the input record.
\<close>

type_synonym store = "(string \<times> pyval) list"
type_synonym keyrefs = "(string \<times> string) list"

definition deref :: "store \<Rightarrow> string \<Rightarrow> pyval" where
  "deref st k = (case map_of st k of Some v \<Rightarrow> v | None \<Rightarrow> PNone)"

definition set_field :: "store \<Rightarrow> string \<Rightarrow> string \<Rightarrow> pyval \<Rightarrow> store" where
  "set_field st k f v =
     (case deref st k of
        PDict rec \<Rightarrow> AList.update k (PDict (AList.update f v rec)) st
      | _ \<Rightarrow> st)"

text \<open>A key of a dictionary built by the module: a string stays inside the model.\<close>

definition as_key :: "pyval \<Rightarrow> string res" where
  "as_key v =
     (case v of
        PStr s \<Rightarrow> Inr s
      | PList _ \<Rightarrow> Inl TypeError
      | PDict _ \<Rightarrow> Inl TypeError
      | _ \<Rightarrow> Inl Unmodelled)"

text \<open>
  The three aggregates and the nesting of the changes, lines 246 to 272. Each step writes
  to the stored record before the next one reads, so an exception leaves the earlier writes
  in place: the result is the exception together with the store as it then stands.
\<close>

definition merge_run_num :: "store \<Rightarrow> string \<Rightarrow> pyval \<Rightarrow> (exc \<times> store) + store" where
  "merge_run_num st tgt info =
     (case bnd (py_getitem info ''__run_num__'') (\<lambda>a.
           bnd (py_getitem (deref st tgt) ''__run_num__'') (\<lambda>b. py_min2 a b)) of
        Inl x \<Rightarrow> Inl (x, st)
      | Inr m \<Rightarrow> Inr (set_field st tgt ''__run_num__'' m))"

definition merge_duration :: "store \<Rightarrow> string \<Rightarrow> pyval \<Rightarrow> (exc \<times> store) + store" where
  "merge_duration st tgt info =
     (case bnd (py_getitem info ''duration'') (\<lambda>a.
           bnd (py_getitem (deref st tgt) ''duration'') (\<lambda>b. sum_round3 a b)) of
        Inl x \<Rightarrow> Inl (x, st)
      | Inr d \<Rightarrow> Inr (set_field st tgt ''duration'' d))"

definition merge_start_time :: "store \<Rightarrow> string \<Rightarrow> pyval \<Rightarrow> (exc \<times> store) + store" where
  "merge_start_time st tgt info =
     (case bnd (py_getitem info ''start_time'') (\<lambda>a.
           bnd (py_getitem (deref st tgt) ''start_time'') (\<lambda>b. py_min2 a b)) of
        Inl x \<Rightarrow> Inl (x, st)
      | Inr t \<Rightarrow> Inr (set_field st tgt ''start_time'' t))"

definition field_or_none :: "pyval \<Rightarrow> string \<Rightarrow> pyval" where
  "field_or_none v k = (case v of PDict kv \<Rightarrow> (case map_of kv k of Some x \<Rightarrow> x | None \<Rightarrow> PNone) | _ \<Rightarrow> PNone)"

definition wrap_changes :: "store \<Rightarrow> string \<Rightarrow> (exc \<times> store) + store" where
  "wrap_changes st tgt =
     (let c = deref st tgt; ch = field_or_none c ''changes'' in
      case ch of
        PDict chkv \<Rightarrow>
          (if py_truthy (field_or_none ch ''compressed changes'') then Inr st
           else
             (case bnd (py_getitem c ''name'') as_key of
                Inl x \<Rightarrow> Inl (x, st)
              | Inr name \<Rightarrow>
                  Inr (set_field st tgt ''changes''
                         (PDict [(''compressed changes'', PDict [(name, ch)])]))))
      | _ \<Rightarrow> Inl (AttributeError, st))"

definition add_changes :: "store \<Rightarrow> string \<Rightarrow> pyval \<Rightarrow> (exc \<times> store) + store" where
  "add_changes st tgt info =
     (case field_or_none (field_or_none (deref st tgt) ''changes'') ''compressed changes'' of
        PDict members \<Rightarrow>
          (case bnd (py_getitem info ''name'') as_key of
             Inl x \<Rightarrow> Inl (x, st)
           | Inr name \<Rightarrow>
               Inr (set_field st tgt ''changes''
                      (PDict (AList.update ''compressed changes''
                                (PDict (AList.update name (field_or_none info ''changes'') members))
                                (case field_or_none (deref st tgt) ''changes'' of
                                   PDict chkv \<Rightarrow> chkv | _ \<Rightarrow> [])))))
      | _ \<Rightarrow> Inl (AttributeError, st))"

definition merge_changes :: "store \<Rightarrow> string \<Rightarrow> pyval \<Rightarrow> (exc \<times> store) + store" where
  "merge_changes st tgt info =
     (if py_truthy (field_or_none (deref st tgt) ''changes'') \<and> py_truthy (field_or_none info ''changes'')
      then (case wrap_changes st tgt of Inl x \<Rightarrow> Inl x | Inr st1 \<Rightarrow> add_changes st1 tgt info)
      else if py_truthy (field_or_none info ''changes'') then
        (case bnd (py_getitem info ''name'') as_key of
           Inl x \<Rightarrow> Inl (x, st)
         | Inr name \<Rightarrow>
             Inr (set_field st tgt ''changes''
                    (PDict [(''compressed changes'', PDict [(name, field_or_none info ''changes'')])])))
      else Inr st)"

definition merge_into :: "store \<Rightarrow> string \<Rightarrow> pyval \<Rightarrow> (exc \<times> store) + store" where
  "merge_into st tgt info =
     (case merge_run_num st tgt info of Inl x \<Rightarrow> Inl x | Inr st1 \<Rightarrow>
       (case merge_duration st1 tgt info of Inl x \<Rightarrow> Inl x | Inr st2 \<Rightarrow>
         (case merge_start_time st2 tgt info of Inl x \<Rightarrow> Inl x | Inr st3 \<Rightarrow>
            merge_changes st3 tgt info)))"

text \<open>One round of the loop over \<^verbatim>\<open>hostdata.items()\<close>, lines 211 to 272.\<close>

definition compress_step ::
  "env \<Rightarrow> string list \<Rightarrow> store \<Rightarrow> keyrefs \<Rightarrow> string \<Rightarrow> pyval \<Rightarrow> (exc \<times> store) + (store \<times> keyrefs)" where
  "compress_step e ids st cm tname info =
     (case ident_key e tname info of
        Inl x \<Rightarrow> Inl (x, st)
      | Inr ident \<Rightarrow>
          if count_list ids ident = 1 then Inr (st, AList.update tname tname cm)
          else
            (case compressed_name e tname info (count_list ids ident) of
               Inl x \<Rightarrow> Inl (x, st)
             | Inr newname \<Rightarrow>
                 (case map_of cm newname of
                    None \<Rightarrow> Inr (st, AList.update newname tname cm)
                  | Some tgt \<Rightarrow>
                      (case merge_into st tgt info of
                         Inl x \<Rightarrow> Inl x
                       | Inr st' \<Rightarrow> Inr (st', cm)))))"

fun compress_items ::
  "env \<Rightarrow> string list \<Rightarrow> (string \<times> pyval) list \<Rightarrow> store \<Rightarrow> keyrefs \<Rightarrow> (exc \<times> store) + (store \<times> keyrefs)" where
  "compress_items e ids [] st cm = Inr (st, cm)"
| "compress_items e ids ((tname, info) # rest) st cm =
     (case compress_step e ids st cm tname info of
        Inl x \<Rightarrow> Inl x
      | Inr (st', cm') \<Rightarrow> compress_items e ids rest st' cm')"

definition compress_host :: "env \<Rightarrow> (string \<times> pyval) list \<Rightarrow> (exc \<times> store) + (store \<times> keyrefs)" where
  "compress_host e items =
     (case ident_keys e items of
        Inl x \<Rightarrow> Inl (x, items)
      | Inr ids \<Rightarrow> compress_items e ids items items [])"

definition materialise :: "store \<Rightarrow> keyrefs \<Rightarrow> (string \<times> pyval) list" where
  "materialise st cm = map (\<lambda>(k, tgt). (k, deref st tgt)) cm"

text \<open>
  The loop over the hosts. The result is the exception that stopped it, if any, the
  dictionary \<^verbatim>\<open>compressed\<close>, the input dictionary as the writes have left it, and for every
  host the input record that each compressed record is.
\<close>

type_synonym sharing = "(string \<times> keyrefs) list"

fun compress_hosts ::
  "env \<Rightarrow> (string \<times> pyval) list \<Rightarrow> (string \<times> pyval) list \<Rightarrow> (string \<times> pyval) list \<Rightarrow> sharing
     \<Rightarrow> exc option \<times> (string \<times> pyval) list \<times> (string \<times> pyval) list \<times> sharing" where
  "compress_hosts e [] compressed input sh = (None, compressed, input, sh)"
| "compress_hosts e ((host, hostdata) # rest) compressed input sh =
     (case hostdata of
        PDict items \<Rightarrow>
          (case compress_host e items of
             Inl (x, st) \<Rightarrow> (Some x, compressed, AList.update host (PDict st) input, sh)
           | Inr (st, cm) \<Rightarrow>
               compress_hosts e rest
                 (AList.update host (PDict (materialise st cm)) compressed)
                 (AList.update host (PDict st) input)
                 (AList.update host cm sh))
      | _ \<Rightarrow> (Some AttributeError, compressed, input, sh))"

text \<open>
  \<^verbatim>\<open>_compress_ids(data)\<close>: the value returned, the input as it is after the call, and the
  sharing between the two (\<open>None\<close> when the value returned is the input itself). On an
  exception the function returns \<^verbatim>\<open>data\<close>, the input object.
\<close>

definition compress_ids :: "env \<Rightarrow> pyval \<Rightarrow> (pyval \<times> pyval \<times> sharing option) res" where
  "compress_ids e data =
     (case data of
        PDict hosts \<Rightarrow>
          (case compress_hosts e hosts [] hosts [] of
             (None, compressed, input, sh) \<Rightarrow> Inr (PDict compressed, PDict input, Some sh)
           | (Some Unmodelled, _, _, _) \<Rightarrow> Inl Unmodelled
           | (Some _, _, input, _) \<Rightarrow> Inr (PDict input, PDict input, None))
      | _ \<Rightarrow> Inr (data, data, None))"

section \<open>\<^verbatim>\<open>_format_host\<close>: the state of the loop over the task records\<close>

text \<open>
  \<^verbatim>\<open>rcounts\<close> is a dictionary keyed by the result values and by the string \<^verbatim>\<open>warnings\<close>.
  Keys that are equal in Python are one key (\<^verbatim>\<open>True\<close>, \<^verbatim>\<open>1\<close> and \<^verbatim>\<open>1.0\<close>), for which the
  model stores the integer; a list or a dictionary is not hashable.
\<close>

definition rkey :: "pyval \<Rightarrow> pyval res" where
  "rkey v =
     (case v of
        PBool b \<Rightarrow> Inr (PInt (if b then 1 else 0))
      | PFloat r \<Rightarrow> Inr (if of_int \<lfloor>r\<rfloor> = r then PInt \<lfloor>r\<rfloor> else PFloat r)
      | PList _ \<Rightarrow> Inl TypeError
      | PDict _ \<Rightarrow> Inl TypeError
      | _ \<Rightarrow> Inr v)"

definition rc_get :: "(pyval \<times> int) list \<Rightarrow> pyval \<Rightarrow> int" where
  "rc_get rc k = (case map_of rc k of Some n \<Rightarrow> n | None \<Rightarrow> 0)"

definition rc_add :: "(pyval \<times> int) list \<Rightarrow> pyval \<Rightarrow> int \<Rightarrow> (pyval \<times> int) list" where
  "rc_add rc k n = AList.update k (rc_get rc k + n) rc"

definition rc_sum :: "(pyval \<times> int) list \<Rightarrow> int" where
  "rc_sum rc = sum_list (map snd rc)"

record hstate =
  rcounts :: "(pyval \<times> int) list"
  rdurations :: "rat list"
  pdurations :: "rat list"
  hcolor :: string
  hstrs :: "string list"
  nchanges :: int

text \<open>
  The member count of a compressed record, lines 402 to 410: with \<^verbatim>\<open>state_compress_ids\<close> set
  and \<^verbatim>\<open>_|-state_compressed_\<close> in the task name, the name is unpacked into exactly four parts
  (\<^verbatim>\<open>ValueError\<close> otherwise) and \<^verbatim>\<open>re.search(r"\((\d+)\)$", _id)\<close> reads the count; \<^verbatim>\<open>$\<close> also
  matches before a newline that ends the string.
\<close>

definition is_digit :: "char \<Rightarrow> bool" where
  "is_digit c = ((48::nat) \<le> of_char c \<and> of_char c \<le> (57::nat))"

definition nat_of_digits :: "string \<Rightarrow> nat" where
  "nat_of_digits ds = foldl (\<lambda>a c. 10 * a + (of_char c - 48)) 0 ds"

definition paren_count :: "string \<Rightarrow> nat option" where
  "paren_count s =
     (case rev s of
        [] \<Rightarrow> None
      | c # r \<Rightarrow>
          if c = CHR '')'' \<and> takeWhile is_digit r \<noteq> [] \<and>
             (case dropWhile is_digit r of [] \<Rightarrow> False | p # _ \<Rightarrow> p = CHR ''('')
          then Some (nat_of_digits (rev (takeWhile is_digit r)))
          else None)"

definition count_match :: "string \<Rightarrow> nat option" where
  "count_match s =
     (case paren_count s of
        Some n \<Rightarrow> Some n
      | None \<Rightarrow> (if s \<noteq> [] \<and> last s = nl then paren_count (butlast s) else None))"

definition compressed_count :: "opts \<Rightarrow> string \<Rightarrow> int res" where
  "compressed_count opt tname =
     (if state_compress_ids opt \<and> is_substring ''_|-state_compressed_'' tname then
        (case py_split ''_|-'' tname of
           [m, ident, name, fn] \<Rightarrow>
             Inr (case count_match ident of Some n \<Rightarrow> int n | None \<Rightarrow> 1)
         | _ \<Rightarrow> Inl ValueError)
      else Inr 1)"

text \<open>
  The duration of a record, lines 413 to 438: \<^verbatim>\<open>float(d)\<close> of a number is the number, of a
  string it may raise \<^verbatim>\<open>ValueError\<close>, which is caught and followed by a second try on the text
  before \<^verbatim>\<open> ms\<close>; of anything else it raises \<^verbatim>\<open>TypeError\<close>, which is not caught. \<open>Inr None\<close>
  is a value that was logged and left out.
\<close>

definition parse_duration :: "env \<Rightarrow> pyval \<Rightarrow> rat option res" where
  "parse_duration e d =
     (case d of
        PStr s \<Rightarrow>
          (case float_of_str e s of
             Some x \<Rightarrow> Inr (Some x)
           | None \<Rightarrow> Inr (float_of_str e (partition_head '' ms'' s)))
      | _ \<Rightarrow> (case num_of d of Some x \<Rightarrow> Inr (Some x) | None \<Rightarrow> Inl TypeError))"

definition bucket_duration :: "env \<Rightarrow> (string \<times> pyval) list \<Rightarrow> hstate \<Rightarrow> hstate res" where
  "bucket_duration e ret st =
     bnd (parse_duration e (case map_of ret ''duration'' of Some d \<Rightarrow> d | None \<Rightarrow> PInt 0))
       (\<lambda>x. case x of
          None \<Rightarrow> Inr st
        | Some r \<Rightarrow>
            Inr (if has_key ret ''__parallel__''
                 then st\<lparr>pdurations := pdurations st @ [r]\<rparr>
                 else st\<lparr>rdurations := rdurations st @ [r]\<rparr>))"

section \<open>\<^verbatim>\<open>_format_changes\<close>\<close>

text \<open>
  The nested render of a host is a parameter here and is tied to \<^verbatim>\<open>_format_host\<close> below.
  It returns the text, the flag and the host's data as the render leaves it.
\<close>

type_synonym host_render = "string \<Rightarrow> pyval \<Rightarrow> ((string \<times> bool) \<times> pyval) res"

definition nested_changes :: "env \<Rightarrow> pyval \<Rightarrow> string" where
  "nested_changes e changes = nl # nested_out e changes"

fun changes_hosts ::
  "host_render \<Rightarrow> (string \<times> pyval) list \<Rightarrow> string \<Rightarrow> bool \<Rightarrow> (string \<times> pyval) list
     \<Rightarrow> (bool \<times> string \<times> (string \<times> pyval) list) res" where
  "changes_hosts fh [] ctext changed acc = Inr (changed, ctext, acc)"
| "changes_hosts fh ((host, hostdata) # rest) ctext changed acc =
     bnd (fh host hostdata) (\<lambda>((s, c), hostdata').
       changes_hosts fh rest
         (ctext @ [nl] @ join_str [nl] (map (\<lambda>l. replicate 14 CHR '' '' @ l) (py_splitlines s)))
         (changed \<or> c)
         (AList.update host hostdata' acc))"

definition format_changes :: "env \<Rightarrow> host_render \<Rightarrow> pyval \<Rightarrow> (bool \<times> string \<times> pyval) res" where
  "format_changes e fh changes =
     (if \<not> py_truthy changes then Inr (False, [], changes)
      else case changes of
        PDict kv \<Rightarrow>
          (if field_or_none changes ''ret'' \<noteq> PNone
              \<and> field_or_none changes ''out'' = PStr ''highstate''
           then
             (case field_or_none changes ''ret'' of
                PDict hosts \<Rightarrow>
                  bnd (changes_hosts fh hosts [] False hosts) (\<lambda>(changed, ctext, hosts').
                    Inr (changed, ctext, PDict (AList.update ''ret'' (PDict hosts') kv)))
              | _ \<Rightarrow> Inl AttributeError)
           else Inr (True, nested_changes e changes, changes))
      | _ \<Rightarrow> Inr (True, ''Invalid Changes data: '' @ py_str e changes, changes))"

text \<open>
  Lines 440 to 454: a record named after an orchestration call renders its changes with a
  nested call of \<^verbatim>\<open>output\<close> (a parameter here), every other record through
  \<^verbatim>\<open>_format_changes\<close>. The result is the flag \<^verbatim>\<open>schanged\<close>, the text, the increment of
  \<^verbatim>\<open>nchanges\<close> and the record as the nested render leaves it.
\<close>

type_synonym out_render = "nat \<Rightarrow> pyval \<Rightarrow> (pyval \<times> pyval) res"

definition orchestration_names :: "string list" where
  "orchestration_names = [''state.orch'', ''state.orchestrate'', ''state.sls'']"

definition is_orchestration :: "(string \<times> pyval) list \<Rightarrow> bool" where
  "is_orchestration ret =
     (case map_of ret ''name'' of Some (PStr n) \<Rightarrow> n \<in> set orchestration_names | _ \<Rightarrow> False)"

definition py_len :: "pyval \<Rightarrow> int res" where
  "py_len v =
     (case v of
        PDict kv \<Rightarrow> Inr (int (length kv))
      | PList xs \<Rightarrow> Inr (int (length xs))
      | PStr s \<Rightarrow> Inr (int (length s))
      | _ \<Rightarrow> Inl TypeError)"

definition compressed_changes_len :: "pyval \<Rightarrow> int res" where
  "compressed_changes_len changes =
     (case changes of
        PDict kv \<Rightarrow>
          bnd (py_len (case map_of kv ''compressed changes'' of Some v \<Rightarrow> v | None \<Rightarrow> PDict []))
            (\<lambda>n. Inr (if n \<noteq> 0 then n else 1))
      | _ \<Rightarrow> Inl AttributeError)"

definition task_changes ::
  "env \<Rightarrow> out_render \<Rightarrow> host_render \<Rightarrow> nat \<Rightarrow> (string \<times> pyval) list \<Rightarrow> int
     \<Rightarrow> (bool \<times> string \<times> int \<times> (string \<times> pyval) list) res" where
  "task_changes e fo fh indent_level ret count =
     (if is_orchestration ret then
        bnd (getitem ret ''changes'') (\<lambda>changes.
        bnd (fo (indent_level + 1) changes) (\<lambda>(nested, changes').
          case nested of
            PStr text \<Rightarrow>
              Inr (True, indent_lines (replicate (14 * indent_level) CHR '' '') (nl # text), 1,
                   AList.update ''changes'' changes' ret)
          | _ \<Rightarrow> Inl TypeError))
      else
        bnd (getitem ret ''changes'') (\<lambda>changes.
        bnd (format_changes e fh changes) (\<lambda>(schanged, ctext, changes').
        bnd (if schanged \<and> 1 < count then compressed_changes_len changes'
             else Inr (if schanged then 1 else 0)) (\<lambda>inc.
          Inr (schanged, ctext, inc, AList.update ''changes'' changes' ret)))))"

section \<open>\<^verbatim>\<open>_format_host\<close>: skipping, mode dispatch and the full block\<close>

text \<open>The two skips of lines 456 to 471: a successful record without changes.\<close>

definition skip_rule :: "opts \<Rightarrow> pyval \<Rightarrow> bool \<Rightarrow> bool" where
  "skip_rule opt result schanged =
     ((state_output_diff opt \<and> py_truthy result \<and> \<not> schanged)
      \<or> (\<not> state_verbose opt \<and> py_truthy result \<and> \<not> schanged))"

text \<open>Lines 473 to 480: the colour of the task, and the colour of the host banner.\<close>

definition task_color :: "env \<Rightarrow> pyval \<Rightarrow> bool \<Rightarrow> string" where
  "task_color e result schanged =
     (if result = PNone then colors e ''LIGHT_YELLOW''
      else if result = PBool False then colors e ''RED''
      else if schanged then colors e ''CYAN''
      else colors e ''GREEN'')"

definition host_color :: "env \<Rightarrow> pyval \<Rightarrow> string \<Rightarrow> string" where
  "host_color e result hc =
     (if result = PNone then colors e ''LIGHT_YELLOW''
      else if result = PBool False then colors e ''RED''
      else hc)"

text \<open>
  Lines 482 to 487: the parts of the task name; a mode ending in \<^verbatim>\<open>_id\<close> copies the ID part
  over the name part, which raises \<^verbatim>\<open>IndexError\<close> on fewer than three parts.
\<close>

definition task_comps :: "opts \<Rightarrow> string \<Rightarrow> string list res" where
  "task_comps opt tname =
     (let comps = py_split ''_|-'' tname in
      if py_endswith (py_lower (state_output opt)) ''_id'' then
        (if length comps < 3 then Inl IndexError else Inr (comps[2 := comps ! 1]))
      else Inr comps)"

text \<open>
  Lines 498 to 512: the keyword arguments of the command line are the last dictionary in
  \<^verbatim>\<open>arg\<close> that holds \<^verbatim>\<open>__kwarg__\<close>; \<^verbatim>\<open>exclude\<close> and \<^verbatim>\<open>terse\<close> come from there or from the
  options, and a string is split at its commas.
\<close>

definition cli_kwargs :: "pyval list \<Rightarrow> (string \<times> pyval) list" where
  "cli_kwargs args =
     foldl (\<lambda>acc item. case item of
                          PDict kv \<Rightarrow> (if has_key kv ''__kwarg__'' then kv else acc)
                        | _ \<Rightarrow> acc) [] args"

definition comma_list :: "pyval \<Rightarrow> pyval" where
  "comma_list v = (case v of PStr s \<Rightarrow> PList (map PStr (py_split '','' s)) | _ \<Rightarrow> v)"

definition exclude_set :: "opts \<Rightarrow> pyval" where
  "exclude_set opt =
     comma_list (case map_of (cli_kwargs (arg opt)) ''exclude'' of
                   Some v \<Rightarrow> v | None \<Rightarrow> state_output_exclude opt)"

definition terse_set :: "opts \<Rightarrow> pyval" where
  "terse_set opt =
     comma_list (case map_of (cli_kwargs (arg opt)) ''terse'' of
                   Some v \<Rightarrow> v | None \<Rightarrow> state_output_terse opt)"

text \<open>\<^verbatim>\<open>s in v\<close> for a string \<^verbatim>\<open>s\<close>.\<close>

definition py_contains_str :: "pyval \<Rightarrow> string \<Rightarrow> bool res" where
  "py_contains_str v s =
     (case v of
        PList xs \<Rightarrow> Inr (PStr s \<in> set xs)
      | PDict kv \<Rightarrow> Inr (has_key kv s)
      | PStr t \<Rightarrow> Inr (is_substring s t)
      | _ \<Rightarrow> Inl TypeError)"

text \<open>Lines 489 to 534: what a record that was not skipped becomes.\<close>

datatype action = Skip | Terse | Full

definition mode_action :: "env \<Rightarrow> opts \<Rightarrow> pyval \<Rightarrow> bool \<Rightarrow> action res" where
  "mode_action e opt result schanged =
     (let so = py_lower (state_output opt) in
      if py_startswith so ''filter'' then
        bnd (py_contains_str (terse_set opt) (py_str e result)) (\<lambda>t.
          if t then Inr Terse
          else bnd (py_contains_str (exclude_set opt) (py_str e result)) (\<lambda>x.
                 Inr (if x then Skip else Full)))
      else if py_startswith so ''terse''
              \<or> (py_startswith so ''mixed'' \<and> result \<noteq> PBool False)
              \<or> (py_startswith so ''changes'' \<and> py_truthy result \<and> \<not> schanged)
      then Inr Terse
      else Inr Full)"

text \<open>
  Lines 554 to 584: the comment is made a string in the record itself, then stripped and
  indented; the \<^verbatim>\<open>data\<close> field is appended to it.
\<close>

definition append_data :: "env \<Rightarrow> (string \<times> pyval) list \<Rightarrow> string \<Rightarrow> string" where
  "append_data e ret comment =
     (case map_of ret ''data'' of
        None \<Rightarrow> comment
      | Some (PList items) \<Rightarrow> foldl (\<lambda>c item. c @ '' '' @ py_str e item) comment items
      | Some (PDict kv) \<Rightarrow>
          foldl (\<lambda>c (key, val). c @ [nl, CHR 0x09, CHR 0x09] @ key @ '': '' @ py_str e val) comment kv
      | Some v \<Rightarrow> comment @ '' '' @ py_str e v)"

definition setdefault :: "string \<Rightarrow> pyval \<Rightarrow> (string \<times> pyval) list \<Rightarrow> (string \<times> pyval) list" where
  "setdefault k v kv = (if has_key kv k then kv else AList.update k v kv)"

definition stringify_comment :: "env \<Rightarrow> (string \<times> pyval) list \<Rightarrow> (string \<times> pyval) list" where
  "stringify_comment e ret =
     (case map_of ret ''comment'' of
        Some (PStr s) \<Rightarrow> ret
      | Some v \<Rightarrow> AList.update ''comment'' (PStr (py_str e v)) ret
      | None \<Rightarrow> ret)"

definition mark_duration :: "env \<Rightarrow> (string \<times> pyval) list \<Rightarrow> (string \<times> pyval) list" where
  "mark_duration e ret =
     (let ret1 = setdefault ''duration'' (PStr []) (setdefault ''start_time'' (PStr []) ret) in
      case map_of ret1 ''duration'' of
        Some d \<Rightarrow> (if d \<noteq> PStr [] then AList.update ''duration'' (PStr (py_str e d @ '' ms'')) ret1
                   else ret1)
      | None \<Rightarrow> ret1)"

text \<open>
  The full block, lines 536 to 595: the lines, and the record as the block leaves it (its
  comment a string, \<^verbatim>\<open>start_time\<close> and \<^verbatim>\<open>duration\<close> present, the duration with its unit).
\<close>

definition full_block ::
  "env \<Rightarrow> opts \<Rightarrow> string \<Rightarrow> string list \<Rightarrow> (string \<times> pyval) list \<Rightarrow> string
     \<Rightarrow> (string list \<times> (string \<times> pyval) list) res" where
  "full_block e opt tcolor comps ret ctext =
     (let endc = colors e ''ENDC''; profile = (state_output_profile opt \<and> has_key ret ''start_time'') in
      bnd (nth_res comps 1) (\<lambda>c1.
      bnd (nth_res comps 2) (\<lambda>c2.
      bnd (getitem ret ''comment'') (\<lambda>comment0.
        let ret1 = stringify_comment e ret;
            comment = append_data e ret1
                        (indent_newlines (replicate 14 CHR '' '') (py_strip (py_str e comment0)));
            ret2 = mark_duration e ret1
        in
      bnd (nth_res comps 0) (\<lambda>c0.
      bnd (nth_res comps 3) (\<lambda>c3.
        Inr ([tcolor @ ''----------'' @ endc,
              ''    '' @ tcolor @ ''      ID: '' @ c1 @ endc,
              ''    '' @ tcolor @ ''Function: '' @ c0 @ ''.'' @ c3 @ endc]
             @ (if c1 \<noteq> c2 then [''    '' @ tcolor @ ''    Name: '' @ c2 @ endc] else [])
             @ [''    '' @ tcolor @ ''  Result: '' @ py_str e (field_or_none (PDict ret2) ''result'') @ endc,
                ''    '' @ tcolor @ '' Comment: '' @ comment @ endc]
             @ (if profile then
                  [''    '' @ tcolor @ '' Started: '' @ py_str e (field_or_none (PDict ret2) ''start_time'') @ endc,
                   ''    '' @ tcolor @ ''Duration: '' @ py_str e (field_or_none (PDict ret2) ''duration'') @ endc]
                else [])
             @ [tcolor @ ''     Changes:   '' @ ctext @ endc],
             ret2)))))))"

text \<open>
  Lines 597 to 607: a record with \<^verbatim>\<open>warnings\<close> that reached the full block counts one
  warning and gets a wrapped block.
\<close>

definition warnings_block :: "env \<Rightarrow> (string \<times> pyval) list \<Rightarrow> hstate \<Rightarrow> hstate res" where
  "warnings_block e ret st =
     (case map_of ret ''warnings'' of
        None \<Rightarrow> Inr st
      | Some w \<Rightarrow>
          bnd (py_join [nl] w) (\<lambda>text.
            Inr (st\<lparr>rcounts := rc_add (rcounts st) (PStr ''warnings'') 1,
                    hstrs := hstrs st @ [''   '' @ colors e ''LIGHT_RED'' @ '' Warnings: ''
                                         @ py_lstrip (wrap_fill e text) @ colors e ''ENDC'']\<rparr>)))"

text \<open>
  One round of the loop of lines 396 to 607, for the record \<^verbatim>\<open>ret\<close> stored under \<^verbatim>\<open>tname\<close>:
  the new state of the loop and the record as the round leaves it.
\<close>

definition render_task ::
  "env \<Rightarrow> opts \<Rightarrow> out_render \<Rightarrow> host_render \<Rightarrow> nat \<Rightarrow> hstate \<Rightarrow> string \<Rightarrow> (string \<times> pyval) list
     \<Rightarrow> (hstate \<times> (string \<times> pyval) list) res" where
  "render_task e opt fo fh indent_level st tname ret =
     bnd (getitem ret ''result'') (\<lambda>result.
     bnd (rkey result) (\<lambda>key.
     bnd (compressed_count opt tname) (\<lambda>count.
     bnd (bucket_duration e ret (st\<lparr>rcounts := rc_add (rcounts st) key count\<rparr>)) (\<lambda>st1.
     bnd (task_changes e fo fh indent_level ret count) (\<lambda>(schanged, ctext, inc, ret1).
       let st2 = st1\<lparr>nchanges := nchanges st1 + inc\<rparr> in
       if skip_rule opt result schanged then Inr (st2, ret1)
       else
         let tcolor = task_color e result schanged;
             st3 = st2\<lparr>hcolor := host_color e result (hcolor st2)\<rparr>
         in
         bnd (task_comps opt tname) (\<lambda>comps.
         bnd (mode_action e opt result schanged) (\<lambda>act.
           case act of
             Skip \<Rightarrow> Inr (st3, ret1)
           | Terse \<Rightarrow>
               bnd (format_terse e opt tcolor comps ret1 (state_tabular opt)) (\<lambda>msg.
                 Inr (st3\<lparr>hstrs := hstrs st3 @ [msg]\<rparr>, ret1))
           | Full \<Rightarrow>
               bnd (full_block e opt tcolor comps ret1 ctext) (\<lambda>(lines, ret2).
               bnd (warnings_block e ret2 (st3\<lparr>hstrs := hstrs st3 @ lines\<rparr>)) (\<lambda>st4.
                 Inr (st4, ret2))))))))))"

section \<open>\<^verbatim>\<open>_format_host\<close>: validation, order and summary\<close>

text \<open>
  Lines 377 to 394. An entry whose value is a non-empty dictionary without \<^verbatim>\<open>__run_num__\<close>,
  under a key other than \<^verbatim>\<open>changes\<close>, puts the error text and a dump of the value at the
  front of \<^verbatim>\<open>hstrs\<close>; an entry whose value is a dictionary with \<^verbatim>\<open>result\<close> goes on to
  \<^verbatim>\<open>data_tmp\<close>. The two tests are independent.
\<close>

definition order_error :: string where
  "order_error = ''The State execution failed to record the order in which all states were executed. The state return missing data is:''"

definition lacks_order :: "string \<times> pyval \<Rightarrow> bool" where
  "lacks_order p =
     (case p of (tname, info) \<Rightarrow>
        (case info of
           PDict kv \<Rightarrow> tname \<noteq> ''changes'' \<and> kv \<noteq> [] \<and> \<not> has_key kv ''__run_num__''
         | _ \<Rightarrow> False))"

definition has_result :: "string \<times> pyval \<Rightarrow> bool" where
  "has_result p =
     (case p of (tname, info) \<Rightarrow>
        (case info of PDict kv \<Rightarrow> has_key kv ''result'' | _ \<Rightarrow> False))"

fun validate ::
  "env \<Rightarrow> (string \<times> pyval) list \<Rightarrow> string list \<Rightarrow> (string \<times> pyval) list
     \<Rightarrow> string list \<times> (string \<times> pyval) list" where
  "validate e [] hs data_tmp = (hs, data_tmp)"
| "validate e ((tname, info) # rest) hs data_tmp =
     validate e rest
       (if lacks_order (tname, info) then order_error # pformat e info # hs else hs)
       (if has_result (tname, info) then AList.update tname info data_tmp else data_tmp)"

text \<open>
  \<^verbatim>\<open>sorted(data, key=lambda k: data[k].get("__run_num__", 0))\<close>: a stable sort. Numbers are
  compared by value; a single record needs no comparison; run orders that are all strings
  or all lists are outside the model; any other mix raises \<^verbatim>\<open>TypeError\<close>.
\<close>

definition run_num :: "pyval \<Rightarrow> pyval" where
  "run_num info =
     (case info of
        PDict kv \<Rightarrow> (case map_of kv ''__run_num__'' of Some v \<Rightarrow> v | None \<Rightarrow> PInt 0)
      | _ \<Rightarrow> PInt 0)"

definition num_key :: "string \<times> pyval \<Rightarrow> rat" where
  "num_key p = (case num_of (run_num (snd p)) of Some r \<Rightarrow> r | None \<Rightarrow> 0)"

definition same_kind :: "pyval \<Rightarrow> pyval \<Rightarrow> bool" where
  "same_kind a b =
     (case (a, b) of (PStr _, PStr _) \<Rightarrow> True | (PList _, PList _) \<Rightarrow> True | _ \<Rightarrow> False)"

definition sorted_tasks :: "(string \<times> pyval) list \<Rightarrow> (string \<times> pyval) list res" where
  "sorted_tasks items =
     (if list_all (\<lambda>p. num_of (run_num (snd p)) \<noteq> None) items then Inr (sort_key num_key items)
      else if length items \<le> 1 then Inr items
      else if list_all (\<lambda>p. same_kind (run_num (snd p)) (run_num (snd (hd items)))) items
      then Inl Unmodelled
      else Inl TypeError)"

text \<open>
  The loop: the records are visited in sorted order, and what a round does to its record is
  written to the host's dictionary, which holds that very record.
\<close>

fun render_tasks ::
  "env \<Rightarrow> opts \<Rightarrow> out_render \<Rightarrow> host_render \<Rightarrow> nat \<Rightarrow> (string \<times> pyval) list \<Rightarrow> hstate
     \<Rightarrow> (string \<times> pyval) list \<Rightarrow> (hstate \<times> (string \<times> pyval) list) res" where
  "render_tasks e opt fo fh indent_level [] st items = Inr (st, items)"
| "render_tasks e opt fo fh indent_level ((tname, info) # rest) st items =
     (case info of
        PDict ret \<Rightarrow>
          bnd (render_task e opt fo fh indent_level st tname ret) (\<lambda>(st', ret').
            render_tasks e opt fo fh indent_level rest st' (AList.update tname (PDict ret') items))
      | _ \<Rightarrow> Inl TypeError)"

text \<open>Lines 609 to 738: the summary.\<close>

definition count_max_len :: "(pyval \<times> int) list \<Rightarrow> nat" where
  "count_max_len rc = fold max (map (\<lambda>p. length (str_int (snd p))) rc) 0"

definition line_max_len :: "(pyval \<times> int) list \<Rightarrow> nat" where
  "line_max_len rc = length ''Succeeded'' + count_max_len rc + 2"

definition counts_line :: "nat \<Rightarrow> string \<Rightarrow> string \<Rightarrow> string" where
  "counts_line width label count = label @ '': '' @ rjust (width - (length label + 2)) count"

definition changestats :: "env \<Rightarrow> (pyval \<times> int) list \<Rightarrow> int \<Rightarrow> string" where
  "changestats e rc nch =
     (let parts =
        (if 0 < rc_get rc PNone
         then [colors e ''LIGHT_YELLOW'' @ ''unchanged='' @ str_int (rc_get rc PNone) @ colors e ''ENDC'']
         else [])
        @ (if 0 < nch
           then [colors e ''GREEN'' @ ''changed='' @ str_int nch @ colors e ''ENDC'']
           else [])
      in if parts \<noteq> [] then '' ('' @ join_str '', '' parts @ '')'' else [])"

text \<open>
  The percentages: \<^verbatim>\<open>round(k / (sum(rcounts.values()) - warnings) * 100, 2)\<close>; the division
  raises \<^verbatim>\<open>ZeroDivisionError\<close> on a zero denominator, which is caught and leaves the line out.
\<close>

definition pct :: "int \<Rightarrow> int \<Rightarrow> pyval res" where
  "pct k den =
     (if den = 0 then Inl ZeroDivisionError
      else Inr (PFloat (round_to 2 (of_int k / of_int den * 100))))"

definition pct_lines :: "env \<Rightarrow> opts \<Rightarrow> (pyval \<times> int) list \<Rightarrow> string list" where
  "pct_lines e opt rc =
     (if state_output_pct opt then
        (let den = rc_sum rc - rc_get rc (PStr ''warnings'');
             num_failed = rc_get rc (PInt 0);
             w = line_max_len rc in
         (case pct (rc_get rc (PInt 1) + rc_get rc PNone) den of
            Inr p \<Rightarrow> [colors e ''GREEN'' @ counts_line w ''Success %'' (py_str e p) @ colors e ''ENDC'']
          | Inl _ \<Rightarrow> [])
         @ (case pct num_failed den of
              Inr p \<Rightarrow> [colors e (if num_failed \<noteq> 0 then ''RED'' else ''CYAN'')
                         @ counts_line w ''Failure %'' (py_str e p) @ colors e ''ENDC'']
            | Inl _ \<Rightarrow> []))
      else [])"

definition profile_lines :: "env \<Rightarrow> opts \<Rightarrow> hstate \<Rightarrow> string list" where
  "profile_lines e opt st =
     (if state_output_profile opt then
        (let total = sum_list (rdurations st)
                     + (if pdurations st \<noteq> [] then fold max (pdurations st) (hd (pdurations st)) else 0);
             secs = (999 < total) in
         [colors e ''CYAN'' @ ''Total run time: ''
          @ rjust (line_max_len (rcounts st) - 5) (fmt_3f e (if secs then total / 1000 else total))
          @ '' '' @ (if secs then ''s'' else ''ms'') @ colors e ''ENDC''])
      else [])"

definition summary :: "env \<Rightarrow> opts \<Rightarrow> string \<Rightarrow> hstate \<Rightarrow> string list" where
  "summary e opt host st =
     (let rc = rcounts st; w = line_max_len rc; endc = colors e ''ENDC'';
          num_failed = rc_get rc (PInt 0);
          num_warnings = rc_get rc (PStr ''warnings'')
      in
      [colors e ''CYAN'' @ [nl] @ ''Summary for '' @ host @ [nl] @ replicate w CHR ''-'' @ endc,
       colors e ''GREEN'' @ counts_line w ''Succeeded'' (str_int (rc_get rc (PInt 1) + rc_get rc PNone))
         @ endc @ changestats e rc (nchanges st),
       colors e (if num_failed \<noteq> 0 then ''RED'' else ''CYAN'')
         @ counts_line w ''Failed'' (str_int num_failed) @ endc]
      @ pct_lines e opt rc
      @ (if num_warnings \<noteq> 0
         then [colors e ''LIGHT_RED'' @ counts_line w ''Warnings'' (str_int num_warnings) @ endc]
         else [])
      @ [colors e ''CYAN'' @ replicate w CHR ''-'' @ [nl] @ ''Total states run: ''
         @ rjust (w - 7) (str_int (rc_sum rc - num_warnings)) @ endc]
      @ profile_lines e opt st)"

section \<open>\<^verbatim>\<open>_format_host\<close> and \<^verbatim>\<open>output\<close>\<close>

definition init_state :: "env \<Rightarrow> hstate" where
  "init_state e = \<lparr>rcounts = [], rdurations = [], pdurations = [], hcolor = colors e ''GREEN'',
                   hstrs = [], nchanges = 0\<rparr>"

text \<open>The errors of a host whose data failed to compile, lines 367 to 374.\<close>

fun error_lines :: "env \<Rightarrow> opts \<Rightarrow> string \<Rightarrow> pyval list \<Rightarrow> string list res" where
  "error_lines e opt hc [] = Inr []"
| "error_lines e opt hc (err # rest) =
     bnd (if strip_colors opt
          then (case err of PStr s \<Rightarrow> Inr (strip_esc e s) | _ \<Rightarrow> Inl Unmodelled)
          else Inr (py_str e err)) (\<lambda>text.
     bnd (error_lines e opt hc rest) (\<lambda>ls.
       Inr ((hc @ ''----------'' @ [nl] @ ''    '' @ text @ colors e ''ENDC'') # ls)))"

text \<open>
  The body of \<^verbatim>\<open>_format_host\<close>, with the two nested renders as parameters: the loop state
  after the branch on the type of \<^verbatim>\<open>data\<close>, and the data as the branch leaves it.
\<close>

definition host_branch ::
  "env \<Rightarrow> opts \<Rightarrow> out_render \<Rightarrow> host_render \<Rightarrow> string \<Rightarrow> pyval \<Rightarrow> nat \<Rightarrow> (hstate \<times> pyval) res" where
  "host_branch e opt fo fh host data indent_level =
     (let st = init_state e; endc = colors e ''ENDC'' in
      case data of
        PInt i \<Rightarrow>
          Inr (st\<lparr>nchanges := 1, hstrs := [hcolor st @ ''    '' @ py_str e data @ endc],
                  hcolor := colors e ''CYAN''\<rparr>, data)
      | PBool b \<Rightarrow>
          Inr (st\<lparr>nchanges := 1, hstrs := [hcolor st @ ''    '' @ py_str e data @ endc],
                  hcolor := colors e ''CYAN''\<rparr>, data)
      | PStr s \<Rightarrow>
          Inr (st\<lparr>nchanges := 1,
                  hstrs := map (\<lambda>l. hcolor st @ ''    '' @ l @ endc) (py_splitlines s),
                  hcolor := colors e ''CYAN''\<rparr>, data)
      | PList errs \<Rightarrow>
          bnd (error_lines e opt (colors e ''LIGHT_RED'') errs) (\<lambda>ls.
            Inr (st\<lparr>hcolor := colors e ''LIGHT_RED'',
                    hstrs := (''    '' @ colors e ''LIGHT_RED'' @ ''Data failed to compile:'' @ endc) # ls\<rparr>,
                 data))
      | PDict items \<Rightarrow>
          (case validate e items [] [] of (hs, data_tmp) \<Rightarrow>
             bnd (sorted_tasks data_tmp) (\<lambda>tasks.
             bnd (render_tasks e opt fo fh indent_level tasks (st\<lparr>hstrs := hs\<rparr>) items)
               (\<lambda>(st', items').
                  Inr (st'\<lparr>hstrs := hstrs st' @ summary e opt host st'\<rparr>, PDict items'))))
      | _ \<Rightarrow> Inr (st, data))"

definition format_host_body ::
  "env \<Rightarrow> opts \<Rightarrow> out_render \<Rightarrow> host_render \<Rightarrow> string \<Rightarrow> pyval \<Rightarrow> nat
     \<Rightarrow> ((string \<times> bool) \<times> pyval) res" where
  "format_host_body e opt fo fh host data indent_level =
     bnd (host_branch e opt fo fh host data indent_level) (\<lambda>(st, data').
       Inr ((join_str [nl]
               ((hcolor st @ (if strip_colors opt then strip_esc e host else host) @ '':''
                 @ colors e ''ENDC'') # hstrs st),
             0 < nchanges st),
            data'))"

text \<open>
  Writing a rendered value back where the envelope steps took it from: the inverse paths of
  \<^verbatim>\<open>strip_return\<close>, \<^verbatim>\<open>strip_data\<close> and \<^verbatim>\<open>strip_lookup_jid\<close>.
\<close>

definition put_return :: "pyval \<Rightarrow> pyval \<Rightarrow> pyval" where
  "put_return data v =
     (case data of
        PDict kv \<Rightarrow> (if has_key kv ''return'' then PDict (AList.update ''return'' v kv) else v)
      | _ \<Rightarrow> v)"

definition put_data :: "pyval \<Rightarrow> pyval \<Rightarrow> pyval" where
  "put_data data v =
     (case data of
        PDict kv \<Rightarrow> (if has_key kv ''data'' then PDict (AList.update ''data'' v kv) else v)
      | _ \<Rightarrow> v)"

definition put_lookup_jid :: "pyval \<Rightarrow> pyval \<Rightarrow> pyval" where
  "put_lookup_jid data v =
     (case data of
        PDict [(k, PDict inner)] \<Rightarrow>
          (if has_key inner ''jid'' \<and> has_key inner ''fun'' then
             (case map_of inner ''return'' of
                Some (PDict r) \<Rightarrow>
                  (if has_key r ''data''
                   then PDict [(k, PDict (AList.update ''return'' (PDict (AList.update ''data'' v r)) inner))]
                   else v)
              | _ \<Rightarrow> v)
           else v)
      | _ \<Rightarrow> v)"

text \<open>The loop of lines 324 to 327 over the hosts.\<close>

fun render_hosts ::
  "(string \<Rightarrow> pyval \<Rightarrow> nat \<Rightarrow> ((string \<times> bool) \<times> pyval) res) \<Rightarrow> nat \<Rightarrow> (string \<times> pyval) list
     \<Rightarrow> (string \<times> pyval) list \<Rightarrow> (string list \<times> (string \<times> pyval) list) res" where
  "render_hosts fh indent_level [] acc = Inr ([], acc)"
| "render_hosts fh indent_level ((host, hostdata) # rest) acc =
     bnd (fh host hostdata indent_level) (\<lambda>((text, changed), hostdata').
     bnd (render_hosts fh indent_level rest (AList.update host hostdata' acc)) (\<lambda>(texts, acc').
       Inr (text # texts, acc')))"

text \<open>
  With \<^verbatim>\<open>state_compress_ids\<close> the hosts rendered are those of the compressed dictionary,
  whose records are records of the input: what the render does to a record is written to the
  input record it is. The changes of a merged record also hold the changes of the members
  that were dropped; a render that alters them is outside the model.
\<close>

definition shares_members :: "pyval \<Rightarrow> bool" where
  "shares_members r =
     (case field_or_none r ''changes'' of PDict kv \<Rightarrow> has_key kv ''compressed changes'' | _ \<Rightarrow> False)"

fun write_back :: "(string \<times> pyval) list \<Rightarrow> keyrefs \<Rightarrow> store \<Rightarrow> store res" where
  "write_back rendered [] st = Inr st"
| "write_back rendered ((k, tgt) # refs) st =
     (let r = deref rendered k in
      if shares_members r \<and> field_or_none r ''changes'' \<noteq> field_or_none (deref st tgt) ''changes''
      then Inl Unmodelled
      else write_back rendered refs (AList.update tgt r st))"

fun write_back_hosts ::
  "(string \<times> pyval) list \<Rightarrow> sharing \<Rightarrow> (string \<times> pyval) list \<Rightarrow> (string \<times> pyval) list res" where
  "write_back_hosts rendered [] input = Inr input"
| "write_back_hosts rendered ((host, refs) # rest) input =
     (case (deref rendered host, deref input host) of
        (PDict items', PDict st) \<Rightarrow>
          bnd (write_back items' refs st) (\<lambda>st'.
            write_back_hosts rendered rest (AList.update host (PDict st') input))
      | _ \<Rightarrow> Inl Unmodelled)"

definition render_data ::
  "env \<Rightarrow> opts \<Rightarrow> (string \<Rightarrow> pyval \<Rightarrow> nat \<Rightarrow> ((string \<times> bool) \<times> pyval) res) \<Rightarrow> nat
     \<Rightarrow> (string \<times> pyval) list \<Rightarrow> (string list \<times> (string \<times> pyval) list) res" where
  "render_data e opt fh indent_level hosts =
     (if state_compress_ids opt then
        bnd (compress_ids e (PDict hosts)) (\<lambda>(returned, input, sh).
          case (returned, input, sh) of
            (PDict compressed, PDict hosts1, Some refs) \<Rightarrow>
              bnd (render_hosts fh indent_level compressed compressed) (\<lambda>(texts, compressed').
              bnd (write_back_hosts compressed' refs hosts1) (\<lambda>hosts2. Inr (texts, hosts2)))
          | (PDict hosts1, _, None) \<Rightarrow> render_hosts fh indent_level hosts1 hosts1
          | _ \<Rightarrow> Inl Unmodelled)
      else render_hosts fh indent_level hosts hosts)"

text \<open>
  \<^verbatim>\<open>output(data, indent_level)\<close> with the render of a host as a parameter: the value
  returned (the text, or the integer or string that was passed in) and the input as the call
  leaves it.
\<close>

definition output_body ::
  "env \<Rightarrow> opts \<Rightarrow> (string \<Rightarrow> pyval \<Rightarrow> nat \<Rightarrow> ((string \<times> bool) \<times> pyval) res) \<Rightarrow> pyval \<Rightarrow> nat
     \<Rightarrow> (pyval \<times> pyval) res" where
  "output_body e opt fh data indent_level =
     bnd (strip_lookup_jid (strip_data (strip_return data))) (\<lambda>d.
       case d of
         PInt i \<Rightarrow> Inr (d, data)
       | PBool b \<Rightarrow> Inr (d, data)
       | PStr s \<Rightarrow> Inr (d, data)
       | PNone \<Rightarrow> Inr (PStr ''None'', data)
       | PDict kv \<Rightarrow>
           bnd (render_data e opt fh indent_level (drop_retcode kv)) (\<lambda>(texts, kv').
             Inr (PStr (join_str [nl] texts),
                  put_return data
                    (put_data (strip_return data)
                       (put_lookup_jid (strip_data (strip_return data)) (PDict kv')))))
       | _ \<Rightarrow> Inl AttributeError)"

text \<open>
  \<^verbatim>\<open>_format_host\<close> and \<^verbatim>\<open>output\<close> call each other through the changes of a record. The
  first argument bounds how deep these calls may nest, as the interpreter's recursion limit
  does; beyond it the call raises \<^verbatim>\<open>RecursionError\<close>.
\<close>

primrec format_host ::
  "env \<Rightarrow> opts \<Rightarrow> nat \<Rightarrow> string \<Rightarrow> pyval \<Rightarrow> nat \<Rightarrow> ((string \<times> bool) \<times> pyval) res" where
  "format_host e opt 0 =
     format_host_body e opt (\<lambda>ind d. Inl RecursionError) (\<lambda>h hd. Inl RecursionError)"
| "format_host e opt (Suc n) =
     format_host_body e opt
       (\<lambda>ind d. output_body e opt (format_host e opt n) d ind)
       (\<lambda>h hd. format_host e opt n h hd 1)"

definition highstate_output :: "env \<Rightarrow> opts \<Rightarrow> nat \<Rightarrow> pyval \<Rightarrow> nat \<Rightarrow> (pyval \<times> pyval) res" where
  "highstate_output e opt fuel data indent_level = output_body e opt (format_host e opt fuel) data indent_level"

text \<open>
  The colourless palette (\<^verbatim>\<open>color: False\<close> makes every entry of the table the empty string)
  with placeholders for the printers outside the module, and the options as they stand when
  nothing is configured; the concrete runs below use them.
\<close>

definition plain_env :: env where
  "plain_env = \<lparr>colors = (\<lambda>c. []), py_repr = (\<lambda>v. ''<repr>''), pformat = (\<lambda>v. ''<pformat>''),
     nested_out = (\<lambda>v. ''<nested>''), strip_esc = (\<lambda>s. s), wrap_fill = (\<lambda>s. s),
     float_of_str = (\<lambda>s. None), fmt_3f = (\<lambda>r. ''<3f>''),
     custom_fmt = (\<lambda>t args r. Inl Unmodelled)\<rparr>"

definition default_opts :: opts where
  "default_opts = \<lparr>state_verbose = False, state_output = ''full'', state_output_diff = False,
     state_tabular = PBool False, state_output_pct = False, state_compress_ids = False,
     state_output_profile = False, state_output_exclude = PList [], state_output_terse = PList [],
     arg = [], strip_colors = True\<rparr>"

text \<open>
  The record of the specification's scenarios, and a render in which nothing is nested (the
  changes of the records used below are empty, so the nested renders are never called).
\<close>

definition vim_name :: string where
  "vim_name = ''pkg_|-vim_|-vim_|-installed''"

definition vim_record :: "(string \<times> pyval) list" where
  "vim_record = [(''result'', PBool True), (''changes'', PDict []),
                 (''comment'', PStr ''already installed''), (''__run_num__'', PInt 0)]"

definition no_nested_output :: out_render where
  "no_nested_output = (\<lambda>indent_level data. Inl RecursionError)"

definition no_nested_host :: host_render where
  "no_nested_host = (\<lambda>host data. Inl RecursionError)"

section \<open>\<^verbatim>\<open>_compress_ids\<close>: the key a record is stored under, and the fields that are merged\<close>










section \<open>What a render leaves of its input\<close>








section \<open>Properties\<close>

subsection \<open>Auxiliary facts\<close>

lemma bnd_Inr [simp]: "bnd (Inr x) f = f x" by (simp add: bnd_def)
lemma bnd_Inl [simp]: "bnd (Inl x) f = Inl x" by (simp add: bnd_def)

lemma bnd_eq_Inr: "bnd m f = Inr y \<longleftrightarrow> (\<exists>x. m = Inr x \<and> f x = Inr y)"
  by (cases m) simp_all


lemma bucket_duration_frame:
  "bucket_duration e ret st = Inr st' \<Longrightarrow>
     rcounts st' = rcounts st \<and> hstrs st' = hstrs st \<and> nchanges st' = nchanges st \<and> hcolor st' = hcolor st"
  by (auto simp: bucket_duration_def bnd_eq_Inr split: option.splits if_splits)








lemma render_task_head:
  assumes "render_task e opt fo fh ind st tname ret = Inr (st', ret')"
  obtains result key count st1 schanged ctext inc ret1 where
    "getitem ret ''result'' = Inr result" and "rkey result = Inr key"
    and "compressed_count opt tname = Inr count"
    and "bucket_duration e ret (st\<lparr>rcounts := rc_add (rcounts st) key count\<rparr>) = Inr st1"
    and "task_changes e fo fh ind ret count = Inr (schanged, ctext, inc, ret1)"
  using assms by (auto simp: render_task_def bnd_eq_Inr)

lemma render_task_outcome:
  assumes run: "render_task e opt fo fh ind st tname ret = Inr (st', ret')"
    and res: "getitem ret ''result'' = Inr result" and key: "rkey result = Inr key"
    and cnt: "compressed_count opt tname = Inr count"
    and buc: "bucket_duration e ret (st\<lparr>rcounts := rc_add (rcounts st) key count\<rparr>) = Inr st1"
    and chg: "task_changes e fo fh ind ret count = Inr (schanged, ctext, inc, ret1)"
  shows "(skip_rule opt result schanged \<and> st' = st1\<lparr>nchanges := nchanges st1 + inc\<rparr> \<and> ret' = ret1)
       \<or> (\<not> skip_rule opt result schanged \<and>
           (\<exists>comps. task_comps opt tname = Inr comps \<and>
              ((mode_action e opt result schanged = Inr Skip
                  \<and> st' = st1\<lparr>nchanges := nchanges st1 + inc,
                               hcolor := host_color e result (hcolor st1)\<rparr>
                  \<and> ret' = ret1)
             \<or> (mode_action e opt result schanged = Inr Terse
                  \<and> (\<exists>msg. format_terse e opt (task_color e result schanged) comps ret1 (state_tabular opt) = Inr msg
                         \<and> st' = st1\<lparr>nchanges := nchanges st1 + inc,
                                      hcolor := host_color e result (hcolor st1),
                                      hstrs := hstrs st1 @ [msg]\<rparr>)
                  \<and> ret' = ret1)
             \<or> (mode_action e opt result schanged = Inr Full
                  \<and> (\<exists>ls. full_block e opt (task_color e result schanged) comps ret1 ctext = Inr (ls, ret')
                         \<and> warnings_block e ret'
                              (st1\<lparr>nchanges := nchanges st1 + inc,
                                   hcolor := host_color e result (hcolor st1),
                                   hstrs := hstrs st1 @ ls\<rparr>) = Inr st')))))"
proof (cases "skip_rule opt result schanged")
  case True
  with run res key cnt buc chg show ?thesis
    by (simp add: render_task_def)
next
  case False
  with run res key cnt buc chg obtain comps act where
    c: "task_comps opt tname = Inr comps" and a: "mode_action e opt result schanged = Inr act"
    by (auto simp: render_task_def bnd_eq_Inr Let_def)
  show ?thesis
  proof (cases act)
    case Skip
    with run res key cnt buc chg False c a show ?thesis
      by (simp add: render_task_def Let_def)
  next
    case Terse
    with run res key cnt buc chg False c a show ?thesis
      by (auto simp: render_task_def Let_def bnd_eq_Inr)
  next
    case Full
    with run res key cnt buc chg False c a show ?thesis
      by (auto simp: render_task_def Let_def bnd_eq_Inr)
  qed
qed

lemma validate_no_result:
  "\<forall>p \<in> set items. \<not> has_result p \<Longrightarrow> snd (validate e items hs dt) = dt"
  by (induction items arbitrary: hs dt) auto

lemma pct_lines_empty: "pct_lines e opt [] = []"
  by (simp add: pct_lines_def pct_def rc_sum_def rc_get_def Let_def)

lemma format_host_unfold:
  "\<exists>fo fh. format_host e opt fuel = format_host_body e opt fo fh"
  by (cases fuel) auto

lemma sorted_tasks_Nil: "sorted_tasks [] = Inr []"
  by (simp add: sorted_tasks_def)

lemma warnings_block_hstrs:
  "warnings_block e ret st = Inr st' \<Longrightarrow> \<exists>w. hstrs st' = hstrs st @ w \<and> length w \<le> 1"
  by (auto simp: warnings_block_def bnd_eq_Inr split: option.splits)

lemma full_block_length:
  "full_block e opt tcolor comps ret ctext = Inr (ls, ret') \<Longrightarrow> 6 \<le> length ls"
  by (auto simp: full_block_def bnd_eq_Inr Let_def)

lemma mode_action_filter_terse:
  "py_startswith (py_lower (state_output opt)) ''filter'' \<Longrightarrow>
   py_contains_str (terse_set opt) (py_str e result) = Inr True \<Longrightarrow>
   mode_action e opt result schanged = Inr Terse"
  by (simp add: mode_action_def)

lemma mode_action_filter_exclude:
  "py_startswith (py_lower (state_output opt)) ''filter'' \<Longrightarrow>
   py_contains_str (terse_set opt) (py_str e result) = Inr False \<Longrightarrow>
   py_contains_str (exclude_set opt) (py_str e result) = Inr True \<Longrightarrow>
   mode_action e opt result schanged = Inr Skip"
  by (simp add: mode_action_def)

lemma render_task_produces:
  assumes run: "render_task e opt fo fh ind st tname ret = Inr (st', ret')"
    and res: "getitem ret ''result'' = Inr result"
    and cnt: "compressed_count opt tname = Inr count"
    and chg: "task_changes e fo fh ind ret count = Inr (schanged, ctext, inc, ret1)"
  shows "((skip_rule opt result schanged \<or> mode_action e opt result schanged = Inr Skip)
            \<and> hstrs st' = hstrs st)
       \<or> (\<not> skip_rule opt result schanged \<and> mode_action e opt result schanged = Inr Terse
            \<and> (\<exists>comps msg. task_comps opt tname = Inr comps
                  \<and> format_terse e opt (task_color e result schanged) comps ret1 (state_tabular opt) = Inr msg
                  \<and> hstrs st' = hstrs st @ [msg]))
       \<or> (\<not> skip_rule opt result schanged \<and> mode_action e opt result schanged = Inr Full
            \<and> (\<exists>comps ls w. task_comps opt tname = Inr comps
                  \<and> full_block e opt (task_color e result schanged) comps ret1 ctext = Inr (ls, ret')
                  \<and> hstrs st' = hstrs st @ ls @ w \<and> 6 \<le> length ls \<and> length w \<le> 1))"
proof -
  from run res cnt obtain key st1 where key: "rkey result = Inr key"
    and buc: "bucket_duration e ret (st\<lparr>rcounts := rc_add (rcounts st) key count\<rparr>) = Inr st1"
    by (auto simp: render_task_def bnd_eq_Inr)
  from bucket_duration_frame [OF buc] have h1: "hstrs st1 = hstrs st" by simp
  from render_task_outcome [OF run res key cnt buc chg] show ?thesis
  proof (elim disjE conjE exE)
    assume "skip_rule opt result schanged" "st' = st1\<lparr>nchanges := nchanges st1 + inc\<rparr>"
    with h1 show ?thesis by simp
  next
    assume "mode_action e opt result schanged = Inr Skip"
      "st' = st1\<lparr>nchanges := nchanges st1 + inc, hcolor := host_color e result (hcolor st1)\<rparr>"
    with h1 show ?thesis by simp
  next
    fix comps msg
    assume "\<not> skip_rule opt result schanged" "task_comps opt tname = Inr comps"
      "mode_action e opt result schanged = Inr Terse"
      "format_terse e opt (task_color e result schanged) comps ret1 (state_tabular opt) = Inr msg"
      "st' = st1\<lparr>nchanges := nchanges st1 + inc, hcolor := host_color e result (hcolor st1),
                  hstrs := hstrs st1 @ [msg]\<rparr>"
    with h1 show ?thesis by auto
  next
    fix comps ls
    assume ns: "\<not> skip_rule opt result schanged" and c: "task_comps opt tname = Inr comps"
      and m: "mode_action e opt result schanged = Inr Full"
      and fb: "full_block e opt (task_color e result schanged) comps ret1 ctext = Inr (ls, ret')"
      and wb: "warnings_block e ret'
                 (st1\<lparr>nchanges := nchanges st1 + inc, hcolor := host_color e result (hcolor st1),
                      hstrs := hstrs st1 @ ls\<rparr>) = Inr st'"
    from warnings_block_hstrs [OF wb] obtain w where
      "hstrs st' = hstrs st1 @ ls @ w" "length w \<le> 1" by auto
    with h1 ns c m fb full_block_length [OF fb] show ?thesis by auto
  qed
qed

lemma render_task_hstrs:
  assumes "render_task e opt fo fh ind st tname ret = Inr (st', ret')"
  shows "\<exists>rest. hstrs st' = hstrs st @ rest"
proof -
  from assms obtain result key count st1 schanged ctext inc ret1 where
    h: "getitem ret ''result'' = Inr result" "compressed_count opt tname = Inr count"
       "task_changes e fo fh ind ret count = Inr (schanged, ctext, inc, ret1)"
    by (rule render_task_head)
  from render_task_produces [OF assms h] show ?thesis by auto
qed

lemma render_tasks_hstrs:
  "render_tasks e opt fo fh ind tasks st items = Inr (st', items') \<Longrightarrow>
     \<exists>rest. hstrs st' = hstrs st @ rest"
proof (induction tasks arbitrary: st items)
  case Nil
  then show ?case by simp
next
  case (Cons p tasks)
  obtain tname info where p: "p = (tname, info)" by (cases p)
  from Cons.prems p obtain ret st1 ret1 where
    r: "render_task e opt fo fh ind st tname ret = Inr (st1, ret1)"
    and t: "render_tasks e opt fo fh ind tasks st1 (AList.update tname (PDict ret1) items) = Inr (st', items')"
    by (cases info) (auto simp: bnd_eq_Inr)
  from render_task_hstrs [OF r] Cons.IH [OF t] show ?case by auto
qed

lemma validate_hs:
  "fst (validate e items hs dt)
     = concat (map (\<lambda>p. [order_error, pformat e (snd p)]) (rev (filter lacks_order items))) @ hs"
  by (induction items arbitrary: hs dt) auto

lemma update_fresh: "k \<notin> fst ` set al \<Longrightarrow> AList.update k v al = al @ [(k, v)]"
  by (induction al) auto

lemma validate_dt:
  "distinct (map fst items) \<Longrightarrow> fst ` set dt \<inter> fst ` set items = {} \<Longrightarrow>
     snd (validate e items hs dt) = dt @ filter has_result items"
proof (induction items arbitrary: hs dt)
  case Nil
  then show ?case by simp
next
  case (Cons p items)
  obtain tname info where p: "p = (tname, info)" by (cases p)
  show ?case
  proof (cases "has_result (tname, info)")
    case True
    from Cons.prems p have fresh: "tname \<notin> fst ` set dt" by auto
    have "fst ` set (dt @ [(tname, info)]) \<inter> fst ` set items = {}"
      using Cons.prems p by auto
    with Cons.IH [of "dt @ [(tname, info)]"] Cons.prems True p fresh show ?thesis
      by (simp add: update_fresh)
  next
    case False
    have "fst ` set dt \<inter> fst ` set items = {}" using Cons.prems by auto
    with Cons.IH [of dt] Cons.prems False p show ?thesis by simp
  qed
qed

subsection \<open>Envelope normalisation\<close>

lemma strip_lookup_jid_plain:
  "\<not> enveloped v \<Longrightarrow> strip_lookup_jid v = Inr v"
  by (auto simp: enveloped_def strip_lookup_jid_def has_key_def
      split: pyval.splits list.splits prod.splits option.splits)

lemma strip_return_plain: "\<not> enveloped v \<Longrightarrow> strip_return v = v"
  by (auto simp: enveloped_def strip_return_def has_key_def split: pyval.splits)

lemma strip_data_plain: "\<not> enveloped v \<Longrightarrow> strip_data v = v"
  by (auto simp: enveloped_def strip_data_def has_key_def split: pyval.splits)

lemma local_masters_delete:
  "local_masters (AList.delete ''retcode'' kv) = local_masters kv"
  by (induction kv) (auto simp: local_masters_def py_endswith_def)

lemma drop_retcode_idem: "drop_retcode (drop_retcode kv) = drop_retcode kv"
  by (simp add: drop_retcode_def orchestrator_output_def has_key_def
      local_masters_delete delete_conv')

lemma normalize_result_shape:
  "normalize_envelope x = Inr y \<Longrightarrow> (\<exists>kv. y = PDict (drop_retcode kv)) \<or> \<not> is_dict y"
  by (auto simp: normalize_envelope_def bnd_def is_dict_def split: sum.splits pyval.splits)

lemma normalize_not_list:
  "normalize_envelope x = Inr y \<Longrightarrow> (case y of PList _ \<Rightarrow> False | PFloat _ \<Rightarrow> False | _ \<Rightarrow> True)"
  by (auto simp: normalize_envelope_def bnd_def split: sum.splits pyval.splits)

lemma size_entry: "map_of kv k = Some v \<Longrightarrow> size v < size (PDict kv)"
  by (induction kv) (auto split: if_splits)

lemma size_delete: "size (PDict (AList.delete k kv)) \<le> size (PDict kv)"
  by (induction kv) auto

lemma size_drop_retcode: "size (PDict (drop_retcode kv)) \<le> size (PDict kv)"
  using size_delete [of "''retcode''" kv] by (simp add: drop_retcode_def)

lemma size_strip_return:
  "size (strip_return v) \<le> size v"
  "(case v of PDict kv \<Rightarrow> has_key kv ''return'' | _ \<Rightarrow> False) \<Longrightarrow> size (strip_return v) < size v"
  by (auto simp: strip_return_def has_key_def dest: size_entry split: pyval.splits option.splits
      intro: less_imp_le)

lemma size_strip_data:
  "size (strip_data v) \<le> size v"
  "(case v of PDict kv \<Rightarrow> has_key kv ''data'' | _ \<Rightarrow> False) \<Longrightarrow> size (strip_data v) < size v"
  by (auto simp: strip_data_def has_key_def dest: size_entry split: pyval.splits option.splits
      intro: less_imp_le)


lemma size_strip_lookup_jid:
  assumes "strip_lookup_jid v = Inr w"
  shows "size w \<le> size v"
    and "(case v of PDict [(k, PDict inner)] \<Rightarrow>
            has_key inner ''jid'' \<and> has_key inner ''fun'' \<and> map_of inner ''return'' \<noteq> None
          | _ \<Rightarrow> False) \<Longrightarrow> w = v \<or> size w < size v"
    and "(case v of PDict [(k, PDict inner)] \<Rightarrow>
            has_key inner ''jid'' \<and> has_key inner ''fun'' \<and>
            (case map_of inner ''return'' of Some (PDict r) \<Rightarrow> has_key r ''data'' | _ \<Rightarrow> False)
          | _ \<Rightarrow> False) \<Longrightarrow> size w < size v"
proof -
  have sub: "\<And>k inner r u. map_of inner ''return'' = Some (PDict r) \<Longrightarrow> map_of r ''data'' = Some u
               \<Longrightarrow> size u < size (PDict [(k, PDict inner)])"
  proof -
    fix k :: string and inner r u
    assume a: "map_of inner ''return'' = Some (PDict r)" and b: "map_of r ''data'' = Some u"
    from size_entry [OF b] size_entry [OF a] have "size u < size (PDict inner)" by simp
    then show "size u < size (PDict [(k, PDict inner)])" by simp
  qed
  from assms show "size w \<le> size v"
    by (auto simp: strip_lookup_jid_def split: pyval.splits list.splits prod.splits option.splits if_splits
        dest: sub intro: less_imp_le)
  from assms show "(case v of PDict [(k, PDict inner)] \<Rightarrow>
            has_key inner ''jid'' \<and> has_key inner ''fun'' \<and> map_of inner ''return'' \<noteq> None
          | _ \<Rightarrow> False) \<Longrightarrow> w = v \<or> size w < size v"
    by (auto simp: strip_lookup_jid_def split: pyval.splits list.splits prod.splits option.splits if_splits
        dest: sub)
  from assms show "(case v of PDict [(k, PDict inner)] \<Rightarrow>
            has_key inner ''jid'' \<and> has_key inner ''fun'' \<and>
            (case map_of inner ''return'' of Some (PDict r) \<Rightarrow> has_key r ''data'' | _ \<Rightarrow> False)
          | _ \<Rightarrow> False) \<Longrightarrow> size w < size v"
    by (auto simp: strip_lookup_jid_def has_key_def
        split: pyval.splits list.splits prod.splits option.splits if_splits dest: sub)
qed

lemma size_normalize:
  assumes "normalize_envelope v = Inr w"
  obtains d where "strip_lookup_jid (strip_data (strip_return v)) = Inr d" and "size w \<le> size d"
proof -
  from assms obtain d where d: "strip_lookup_jid (strip_data (strip_return v)) = Inr d"
    and c: "(case d of PDict kv \<Rightarrow> Inr (PDict (drop_retcode kv)) | PList _ \<Rightarrow> Inl AttributeError
             | PFloat _ \<Rightarrow> Inl AttributeError | _ \<Rightarrow> Inr d) = Inr w"
    by (auto simp: normalize_envelope_def bnd_eq_Inr)
  from c have "size w \<le> size d"
    using size_drop_retcode by (cases d) auto
  with d show ?thesis by (rule that)
qed

lemma enveloped_not_fixed:
  assumes env: "enveloped y" and n: "normalize_envelope y = Inr w"
  shows "size w < size y"
proof -
  from n obtain d where d: "strip_lookup_jid (strip_data (strip_return y)) = Inr d"
    and wd: "size w \<le> size d"
    by (rule size_normalize)
  from env obtain kv where y: "y = PDict kv" by (cases y) (auto simp: enveloped_def)
  show ?thesis
  proof (cases "has_key kv ''return''")
    case True
    with y have "size (strip_return y) < size y" by (intro size_strip_return(2)) simp
    moreover have "size (strip_data (strip_return y)) \<le> size (strip_return y)"
      by (rule size_strip_data(1))
    moreover from size_strip_lookup_jid(1) [OF d] have "size d \<le> size (strip_data (strip_return y))" .
    ultimately show ?thesis using wd by linarith
  next
    case nr: False
    with y have sr: "strip_return y = y"
      by (simp add: strip_return_def has_key_def)
    show ?thesis
    proof (cases "has_key kv ''data''")
      case True
      with y have "size (strip_data y) < size y" by (intro size_strip_data(2)) simp
      moreover from size_strip_lookup_jid(1) [OF d] sr have "size d \<le> size (strip_data y)" by simp
      ultimately show ?thesis using wd by linarith
    next
      case nd: False
      with y have sd: "strip_data y = y"
        by (simp add: strip_data_def has_key_def)
      from d sr sd have d': "strip_lookup_jid y = Inr d" by simp
      from env nr nd y have l: "(case kv of [(k, PDict inner)] \<Rightarrow>
               has_key inner ''jid'' \<and> has_key inner ''fun'' \<and>
               (case map_of inner ''return'' of None \<Rightarrow> False | Some (PDict r) \<Rightarrow> has_key r ''data''
                | Some _ \<Rightarrow> True)
           | _ \<Rightarrow> False)"
        by (simp add: enveloped_def)
      from l d' y have "(case y of PDict [(k, PDict inner)] \<Rightarrow>
            has_key inner ''jid'' \<and> has_key inner ''fun'' \<and>
            (case map_of inner ''return'' of Some (PDict r) \<Rightarrow> has_key r ''data'' | _ \<Rightarrow> False)
          | _ \<Rightarrow> False)"
        by (auto simp: strip_lookup_jid_def split: list.splits prod.splits pyval.splits option.splits if_splits)
      from size_strip_lookup_jid(3) [OF d' this] wd show ?thesis by linarith
    qed
  qed
qed

text \<open>
  Claim C7, as stated: normalisation is idempotent on every input. It is not: each envelope
  layer is stripped at most once in a pass, so \<^verbatim>\<open>{"return": {"return": {"minionA": {}}}}\<close>
  loses one \<^verbatim>\<open>return\<close> layer in the first pass and the other in the second.
\<close>

theorem C7_normalize_not_idempotent:
  "bnd (normalize_envelope (PDict [(''return'', PDict [(''return'', PDict [(''minionA'', PDict [])])])]))
       normalize_envelope
   \<noteq> normalize_envelope (PDict [(''return'', PDict [(''return'', PDict [(''minionA'', PDict [])])])])"
  by (simp add: normalize_envelope_def bnd_def strip_return_def strip_data_def strip_lookup_jid_def
      drop_retcode_def orchestrator_output_def has_key_def)

text \<open>
  Claim C7, amended: when the normalisation of \<^verbatim>\<open>x\<close> returns \<^verbatim>\<open>y\<close>, normalising twice gives
  the same as normalising once if and only if \<^verbatim>\<open>y\<close> wears no envelope any more: it has no
  \<^verbatim>\<open>return\<close> key and no \<^verbatim>\<open>data\<close> key, and it is not a one-key \<^verbatim>\<open>lookup_jid\<close> wrapper
  (the value holds \<^verbatim>\<open>jid\<close> and \<^verbatim>\<open>fun\<close>) with a \<^verbatim>\<open>return\<close> entry that is either no
  dictionary or a dictionary with \<^verbatim>\<open>data\<close>. A wrapper without \<^verbatim>\<open>return\<close>, or whose
  \<^verbatim>\<open>return\<close> has no \<^verbatim>\<open>data\<close>, is left as it is by every pass.
\<close>

theorem C7_normalize_idempotent_iff_stripped:
  assumes "normalize_envelope x = Inr y"
  shows "bnd (normalize_envelope x) normalize_envelope = normalize_envelope x \<longleftrightarrow> \<not> enveloped y"
proof
  assume "bnd (normalize_envelope x) normalize_envelope = normalize_envelope x"
  with assms have fx: "normalize_envelope y = Inr y" by simp
  show "\<not> enveloped y"
  proof
    assume "enveloped y"
    from enveloped_not_fixed [OF this fx] show False by simp
  qed
next
  assume ne: "\<not> enveloped y"
  then have s: "strip_lookup_jid (strip_data (strip_return y)) = Inr y"
    by (simp add: strip_return_plain strip_data_plain strip_lookup_jid_plain)
  from normalize_result_shape [OF assms] have "normalize_envelope y = Inr y"
  proof
    assume "\<exists>kv. y = PDict (drop_retcode kv)"
    then obtain kv where y: "y = PDict (drop_retcode kv)" by blast
    show ?thesis
      using s by (simp add: normalize_envelope_def bnd_def y drop_retcode_idem)
  next
    assume nd: "\<not> is_dict y"
    from normalize_not_list [OF assms] nd show ?thesis
      using s by (cases y) (simp_all add: normalize_envelope_def bnd_def is_dict_def)
  qed
  with assms show "bnd (normalize_envelope x) normalize_envelope = normalize_envelope x" by simp
qed

text \<open>
  A \<^verbatim>\<open>lookup_jid\<close> wrapper whose \<^verbatim>\<open>return\<close> has no \<^verbatim>\<open>data\<close>, inside a \<^verbatim>\<open>return\<close> layer: the
  first pass strips the layer and the second changes nothing.
\<close>

theorem C7_normalize_idempotent_witness:
  "normalize_envelope
     (PDict [(''return'', PDict [(''m'', PDict [(''jid'', PStr ''1''), (''fun'', PStr ''state.apply''),
                                                (''return'', PDict [(''t'', PDict [])])])])])
     = Inr (PDict [(''m'', PDict [(''jid'', PStr ''1''), (''fun'', PStr ''state.apply''),
                                  (''return'', PDict [(''t'', PDict [])])])])
   \<and> \<not> enveloped (PDict [(''m'', PDict [(''jid'', PStr ''1''), (''fun'', PStr ''state.apply''),
                                         (''return'', PDict [(''t'', PDict [])])])])
   \<and> bnd (normalize_envelope
            (PDict [(''return'', PDict [(''m'', PDict [(''jid'', PStr ''1''), (''fun'', PStr ''state.apply''),
                                                       (''return'', PDict [(''t'', PDict [])])])])]))
          normalize_envelope
     = normalize_envelope
         (PDict [(''return'', PDict [(''m'', PDict [(''jid'', PStr ''1''), (''fun'', PStr ''state.apply''),
                                                    (''return'', PDict [(''t'', PDict [])])])])])"
proof -
  let ?y = "PDict [(''m'', PDict [(''jid'', PStr ''1''), (''fun'', PStr ''state.apply''),
                                  (''return'', PDict [(''t'', PDict [])])])]"
  let ?x = "PDict [(''return'', ?y)]"
  have a: "normalize_envelope ?x = Inr ?y" by code_simp
  have b: "\<not> enveloped ?y" by code_simp
  from C7_normalize_idempotent_iff_stripped [OF a] b
  have "bnd (normalize_envelope ?x) normalize_envelope = normalize_envelope ?x" by blast
  with a b show ?thesis by blast
qed

subsection \<open>Terse lines\<close>

text \<open>
  Claim C4, as stated: in terse mode the line of a record starts with the outcome word and
  ends with \<^verbatim>\<open>Result: <result>\<close>, so that the record of the specification's scenario gives
  \<^verbatim>\<open>Clean Name: vim - Function: pkg.installed - Result: True\<close>. The format string of
  \<^verbatim>\<open>_format_terse\<close> puts the colour of the task in front and the outcome word after
  \<^verbatim>\<open>Result:\<close>; the value of \<^verbatim>\<open>result\<close> is not printed. Without colours the scenario renders as
  follows.
\<close>

theorem C4_terse_line_counterexample:
  "highstate_output plain_env (default_opts\<lparr>state_output := ''terse'', state_verbose := True\<rparr>) 0
     (PDict [(''minionA'', PDict [(''pkg_|-vim_|-vim_|-installed'',
        PDict [(''result'', PBool True), (''changes'', PDict []),
               (''comment'', PStr ''already installed''), (''__run_num__'', PInt 0)])])]) 1
   = Inr (PStr ''minionA:\<newline>  Name: vim - Function: pkg.installed - Result: Clean\<newline>\<newline>Summary for minionA\<newline>------------\<newline>Succeeded: 1\<newline>Failed:    0\<newline>------------\<newline>Total states run:     1'',
      PDict [(''minionA'', PDict [(''pkg_|-vim_|-vim_|-installed'',
        PDict [(''result'', PBool True), (''changes'', PDict []),
               (''comment'', PStr ''already installed''), (''__run_num__'', PInt 0)])])])"
  by code_simp

text \<open>
  Claim C4, amended: in the plain terse layout (\<^verbatim>\<open>state_tabular\<close> neither \<^verbatim>\<open>True\<close> nor a
  template), a record without warnings and without profiling data is rendered as the one line
  \<^verbatim>\<open> <colour> Name: <name> - Function: <module>.<fn> - Result: <outcome><end colour>\<close>, where
  the outcome word is \<^verbatim>\<open>Failed\<close> if the result is \<^verbatim>\<open>False\<close>, else \<^verbatim>\<open>Differs\<close> if it is
  \<^verbatim>\<open>None\<close>, else \<^verbatim>\<open>Changed\<close> if the changes are not empty, else \<^verbatim>\<open>Clean\<close>.
\<close>

theorem C4_terse_line_layout:
  assumes "getitem ret ''changes'' = Inr changes" and "getitem ret ''result'' = Inr result"
    and "tabular \<noteq> PBool True" and "\<forall>t. tabular \<noteq> PStr t"
    and "\<not> has_key ret ''warnings''"
    and "\<not> (state_output_profile opt \<and> has_key ret ''start_time'')"
    and "2 < length comps"
  shows "format_terse e opt tcolor comps ret tabular
         = Inr ('' '' @ tcolor @ '' Name: '' @ comps ! 2 @ '' - Function: '' @ comps ! 0 @ ''.''
                @ last comps @ '' - Result: ''
                @ (if result = PBool False then ''Failed''
                   else if result = PNone then ''Differs''
                   else if py_truthy changes then ''Changed'' else ''Clean'')
                @ colors e ''ENDC'')"
proof -
  have w: "terse_warnings e ret [] = Inr []"
    using assms(5) by (simp add: terse_warnings_def has_key_def)
  have p: "\<And>layout. terse_profile e opt ret layout = Inr []"
    using assms(6) by (auto simp: terse_profile_def)
  have t: "terse_word ret = Inr (if result = PBool False then ''Failed''
                   else if result = PNone then ''Differs''
                   else if py_truthy changes then ''Changed'' else ''Clean'')"
    using assms(1,2) by (simp add: terse_word_def Let_def)
  have n: "nth_res comps 2 = Inr (comps ! 2)" "nth_res comps 0 = Inr (comps ! 0)"
    using assms(7) by (auto simp: nth_res_def)
  show ?thesis
    using assms(3,4,7) by (cases tabular) (auto simp: format_terse_def t w p n)
qed

text \<open>
The scenario's record, at which every hypothesis of the layout theorem holds.
\<close>

theorem C4_terse_line_layout_witness:
  "getitem vim_record ''changes'' = Inr (PDict [])
   \<and> getitem vim_record ''result'' = Inr (PBool True)
   \<and> \<not> has_key vim_record ''warnings''
   \<and> 2 < length (py_split ''_|-'' vim_name)
   \<and> format_terse plain_env default_opts [] (py_split ''_|-'' vim_name) vim_record (PBool False)
       = Inr ''  Name: vim - Function: pkg.installed - Result: Clean''"
proof -
  have h1: "getitem vim_record ''changes'' = Inr (PDict [])" by code_simp
  have h2: "getitem vim_record ''result'' = Inr (PBool True)" by code_simp
  have h3: "PBool False \<noteq> PBool True" by simp
  have h4: "\<forall>t. PBool False \<noteq> PStr t" by simp
  have h5: "\<not> has_key vim_record ''warnings''" by code_simp
  have h6: "\<not> (state_output_profile default_opts \<and> has_key vim_record ''start_time'')" by code_simp
  have h7: "2 < length (py_split ''_|-'' vim_name)" by code_simp
  have "format_terse plain_env default_opts [] (py_split ''_|-'' vim_name) vim_record (PBool False)
       = Inr ''  Name: vim - Function: pkg.installed - Result: Clean''"
    by (subst C4_terse_line_layout [OF h1 h2 h3 h4 h5 h6 h7]) code_simp
  with h1 h2 h5 h7 show ?thesis by blast
qed

subsection \<open>Identity compression\<close>

text \<open>
  Claim C2 says that an exception during identity compression hands back the input
  unmodified. The function stores the first record of a group by reference, so the merge of
  a later member writes to the input record. Here the second member has no \<^verbatim>\<open>duration\<close>:
  the merge has already lowered \<^verbatim>\<open>__run_num__\<close> of the first input record from 5 to 3 when
  \<^verbatim>\<open>info["duration"]\<close> raises \<^verbatim>\<open>KeyError\<close>, and the value returned is the input with that write
  in it.
\<close>

theorem C2_compress_failure_mutates_input:
  "compress_ids plain_env
     (PDict [(''minionA'', PDict
        [(''cmd_|-a_|-x_|-run'', PDict
            [(''__id__'', PStr ''a''), (''__sls__'', PStr ''s''), (''result'', PBool True),
             (''__run_num__'', PInt 5), (''duration'', PInt 1), (''start_time'', PStr ''t1''),
             (''name'', PStr ''x''), (''changes'', PDict [])]),
         (''cmd_|-a_|-y_|-run'', PDict
            [(''__id__'', PStr ''a''), (''__sls__'', PStr ''s''), (''result'', PBool True),
             (''__run_num__'', PInt 3), (''name'', PStr ''y''), (''changes'', PDict [])])])])
   = Inr (PDict [(''minionA'', PDict
        [(''cmd_|-a_|-x_|-run'', PDict
            [(''__id__'', PStr ''a''), (''__sls__'', PStr ''s''), (''result'', PBool True),
             (''__run_num__'', PInt 3), (''duration'', PInt 1), (''start_time'', PStr ''t1''),
             (''name'', PStr ''x''), (''changes'', PDict [])]),
         (''cmd_|-a_|-y_|-run'', PDict
            [(''__id__'', PStr ''a''), (''__sls__'', PStr ''s''), (''result'', PBool True),
             (''__run_num__'', PInt 3), (''name'', PStr ''y''), (''changes'', PDict [])])])],
      PDict [(''minionA'', PDict
        [(''cmd_|-a_|-x_|-run'', PDict
            [(''__id__'', PStr ''a''), (''__sls__'', PStr ''s''), (''result'', PBool True),
             (''__run_num__'', PInt 3), (''duration'', PInt 1), (''start_time'', PStr ''t1''),
             (''name'', PStr ''x''), (''changes'', PDict [])]),
         (''cmd_|-a_|-y_|-run'', PDict
            [(''__id__'', PStr ''a''), (''__sls__'', PStr ''s''), (''result'', PBool True),
             (''__run_num__'', PInt 3), (''name'', PStr ''y''), (''changes'', PDict [])])])],
      None)"
  by code_simp

subsection \<open>Merged records\<close>









lemma map_of_set_field: "t' \<noteq> k \<Longrightarrow> map_of (set_field st k f v) t' = map_of st t'"
  by (auto simp: set_field_def update_conv' split: pyval.splits)

lemma deref_set_field_other: "t' \<noteq> k \<Longrightarrow> deref (set_field st k f v) t' = deref st t'"
  by (simp add: deref_def map_of_set_field)





























subsection \<open>Summary counts\<close>

text \<open>
  Claim C1 says that the counts of the summary add up to the number of task records of the
  input, whatever the configuration. With \<^verbatim>\<open>state_compress_ids\<close> the identity of a record is
  the string \<^verbatim>\<open>"_".join([module, id, sls, result])\<close>, which does not tell the ID \<^verbatim>\<open>foo_bar\<close> in
  \<^verbatim>\<open>baz\<close> from the ID \<^verbatim>\<open>foo\<close> in \<^verbatim>\<open>bar_baz\<close>: each of the two records below is given
  the member count 2 under a key of its own, and the summary reports four states for two.
\<close>

theorem C1_ambiguous_identity_overcounts:
  "highstate_output plain_env (default_opts\<lparr>state_compress_ids := True\<rparr>) 0
     (PDict [(''minionA'', PDict
        [(''file_|-foo_bar_|-/tmp/a_|-managed'', PDict
            [(''__id__'', PStr ''foo_bar''), (''__sls__'', PStr ''baz''), (''result'', PBool True),
             (''__run_num__'', PInt 0), (''name'', PStr ''/tmp/a''), (''changes'', PDict []),
             (''comment'', PStr ''ok'')]),
         (''file_|-foo_|-/tmp/b_|-managed'', PDict
            [(''__id__'', PStr ''foo''), (''__sls__'', PStr ''bar_baz''), (''result'', PBool True),
             (''__run_num__'', PInt 1), (''name'', PStr ''/tmp/b''), (''changes'', PDict []),
             (''comment'', PStr ''ok'')])])]) 1
   = Inr (PStr ''minionA:\<newline>\<newline>Summary for minionA\<newline>------------\<newline>Succeeded: 4\<newline>Failed:    0\<newline>------------\<newline>Total states run:     4'',
      PDict [(''minionA'', PDict
        [(''file_|-foo_bar_|-/tmp/a_|-managed'', PDict
            [(''__id__'', PStr ''foo_bar''), (''__sls__'', PStr ''baz''), (''result'', PBool True),
             (''__run_num__'', PInt 0), (''name'', PStr ''/tmp/a''), (''changes'', PDict []),
             (''comment'', PStr ''ok'')]),
         (''file_|-foo_|-/tmp/b_|-managed'', PDict
            [(''__id__'', PStr ''foo''), (''__sls__'', PStr ''bar_baz''), (''result'', PBool True),
             (''__run_num__'', PInt 1), (''name'', PStr ''/tmp/b''), (''changes'', PDict []),
             (''comment'', PStr ''ok'')])])])"
  by code_simp

text \<open>
  Claim C9: a host without a single valid task record, rendered with \<^verbatim>\<open>state_output_pct\<close>
  set, raises no division error and has no percentage line. The render returns, and its
  text is the banner, the diagnostic lines and the four lines of the summary (five with
  profiling); nothing stands between \<^verbatim>\<open>Failed\<close> and the total.
\<close>

theorem C9_no_percent_lines_without_tasks:
  assumes "\<forall>p \<in> set items. \<not> has_result p"
  shows "format_host e (opt\<lparr>state_output_pct := True\<rparr>) fuel host (PDict items) ind
         = Inr ((join_str [nl]
                   ((colors e ''GREEN'' @ (if strip_colors opt then strip_esc e host else host)
                     @ '':'' @ colors e ''ENDC'')
                    # fst (validate e items [] [])
                    @ [colors e ''CYAN'' @ [nl] @ ''Summary for '' @ host @ [nl]
                         @ replicate 11 CHR ''-'' @ colors e ''ENDC'',
                       colors e ''GREEN'' @ ''Succeeded: 0'' @ colors e ''ENDC'',
                       colors e ''CYAN'' @ ''Failed:   0'' @ colors e ''ENDC'',
                       colors e ''CYAN'' @ replicate 11 CHR ''-'' @ [nl]
                         @ ''Total states run:    0'' @ colors e ''ENDC'']
                    @ (if state_output_profile opt
                       then [colors e ''CYAN'' @ ''Total run time: '' @ rjust 6 (fmt_3f e 0)
                             @ '' ms'' @ colors e ''ENDC'']
                       else [])),
                 False),
                PDict items)"
proof -
  obtain fo fh where f: "format_host e (opt\<lparr>state_output_pct := True\<rparr>) fuel
                          = format_host_body e (opt\<lparr>state_output_pct := True\<rparr>) fo fh"
    using format_host_unfold by blast
  obtain hs dt where v: "validate e items [] [] = (hs, dt)" by (cases "validate e items [] []")
  with validate_no_result [OF assms, of e "[]" "[]"] have dt: "dt = []" by simp
  have z: "str_int 0 = ''0''" by code_simp
  show ?thesis
    unfolding f
    by (simp add: format_host_body_def host_branch_def v dt sorted_tasks_Nil init_state_def
        summary_def pct_lines_empty profile_lines_def line_max_len_def count_max_len_def
        counts_line_def changestats_def rc_get_def rc_sum_def rjust_def z Let_def eval_nat_numeral)
qed

text \<open>
A host whose only entry has no \<^verbatim>\<open>result\<close>.
\<close>

theorem C9_no_percent_lines_witness:
  "list_all (\<lambda>p. \<not> has_result p) [(''broken'', PDict [(''comment'', PStr ''x'')])]
   \<and> format_host plain_env (default_opts\<lparr>state_output_pct := True\<rparr>) 0 ''minionA''
         (PDict [(''broken'', PDict [(''comment'', PStr ''x'')])]) 1
       = Inr ((''minionA:\<newline>The State execution failed to record the order in which all states were executed. The state return missing data is:\<newline><pformat>\<newline>\<newline>Summary for minionA\<newline>-----------\<newline>Succeeded: 0\<newline>Failed:   0\<newline>-----------\<newline>Total states run:    0'',
               False),
              PDict [(''broken'', PDict [(''comment'', PStr ''x'')])])"
proof -
  have h: "\<forall>p \<in> set [(''broken'', PDict [(''comment'', PStr ''x'')])]. \<not> has_result p"
    by (simp add: has_result_def has_key_def)
  have "format_host plain_env (default_opts\<lparr>state_output_pct := True\<rparr>) 0 ''minionA''
         (PDict [(''broken'', PDict [(''comment'', PStr ''x'')])]) 1
       = Inr ((''minionA:\<newline>The State execution failed to record the order in which all states were executed. The state return missing data is:\<newline><pformat>\<newline>\<newline>Summary for minionA\<newline>-----------\<newline>Succeeded: 0\<newline>Failed:   0\<newline>-----------\<newline>Total states run:    0'',
               False),
              PDict [(''broken'', PDict [(''comment'', PStr ''x'')])])"
    by (subst C9_no_percent_lines_without_tasks [OF h]) code_simp
  moreover have "list_all (\<lambda>p. \<not> has_result p) [(''broken'', PDict [(''comment'', PStr ''x'')])]"
    by (simp add: has_result_def has_key_def)
  ultimately show ?thesis by blast
qed



subsection \<open>Validation and mode dispatch\<close>

text \<open>
  Claim C6, as stated: the diagnostic block is inserted for the entries that lack both
  \<^verbatim>\<open>result\<close> and \<^verbatim>\<open>__run_num__\<close>, and only for them, and such an entry is left out of all
  further processing. The test of lines 379 to 384 does not look at \<^verbatim>\<open>result\<close>: the record
  below has a result and no \<^verbatim>\<open>__run_num__\<close>, gets the diagnostic block and is counted.
\<close>

theorem C6_diagnostic_counterexample:
  "highstate_output plain_env default_opts 0
     (PDict [(''minionA'', PDict [(''pkg_|-vim_|-vim_|-installed'',
        PDict [(''result'', PBool True), (''changes'', PDict []),
               (''comment'', PStr ''already installed'')])])]) 1
   = Inr (PStr ''minionA:\<newline>The State execution failed to record the order in which all states were executed. The state return missing data is:\<newline><pformat>\<newline>\<newline>Summary for minionA\<newline>------------\<newline>Succeeded: 1\<newline>Failed:    0\<newline>------------\<newline>Total states run:     1'',
      PDict [(''minionA'', PDict [(''pkg_|-vim_|-vim_|-installed'',
        PDict [(''result'', PBool True), (''changes'', PDict []),
               (''comment'', PStr ''already installed'')])])])"
  by code_simp

text \<open>
  Claim C6, amended: the diagnostic block (error text and dump) is put at the front of the
  host's lines for every entry whose value is a non-empty dictionary without \<^verbatim>\<open>__run_num__\<close>
  under a key other than \<^verbatim>\<open>changes\<close>, whether it has a \<^verbatim>\<open>result\<close> or not, the block of a
  later entry before that of an earlier one; independently, the entries that are rendered
  and counted are exactly those whose value is a dictionary with \<^verbatim>\<open>result\<close>. The text of
  the host is the banner, then the lines of the loop over these entries, which begin with
  the diagnostic blocks, then the summary.
\<close>

theorem C6_diagnostic_and_validity_are_independent:
  assumes d: "distinct (map fst items)"
    and run: "format_host e opt fuel host (PDict items) ind = Inr ((text, changed), data')"
  shows "\<exists>fo fh tasks st items' rest.
           sorted_tasks (filter has_result items) = Inr tasks
         \<and> render_tasks e opt fo fh ind tasks
              ((init_state e)\<lparr>hstrs := concat (map (\<lambda>p. [order_error, pformat e (snd p)])
                                                  (rev (filter lacks_order items)))\<rparr>) items
             = Inr (st, items')
         \<and> hstrs st = concat (map (\<lambda>p. [order_error, pformat e (snd p)])
                                  (rev (filter lacks_order items))) @ rest
         \<and> text = join_str [nl]
                    ((hcolor st @ (if strip_colors opt then strip_esc e host else host) @ '':''
                      @ colors e ''ENDC'')
                     # hstrs st @ summary e opt host st)"
proof -
  obtain fo fh where f: "format_host e opt fuel = format_host_body e opt fo fh"
    using format_host_unfold by blast
  have v: "validate e items [] []
             = (concat (map (\<lambda>p. [order_error, pformat e (snd p)]) (rev (filter lacks_order items))),
                filter has_result items)"
    using validate_hs [of e items "[]" "[]"] validate_dt [OF d, of "[]" e "[]"]
    by (cases "validate e items [] []") simp
  from run obtain tasks st items' where
    s: "sorted_tasks (filter has_result items) = Inr tasks"
    and r: "render_tasks e opt fo fh ind tasks
              ((init_state e)\<lparr>hstrs := concat (map (\<lambda>p. [order_error, pformat e (snd p)])
                                                  (rev (filter lacks_order items)))\<rparr>) items
             = Inr (st, items')"
    and t: "text = join_str [nl]
                    ((hcolor st @ (if strip_colors opt then strip_esc e host else host) @ '':''
                      @ colors e ''ENDC'')
                     # hstrs st @ summary e opt host st)"
    unfolding f by (auto simp: format_host_body_def host_branch_def v bnd_eq_Inr Let_def)
  from render_tasks_hstrs [OF r] obtain rest where
    "hstrs st = concat (map (\<lambda>p. [order_error, pformat e (snd p)])
                                  (rev (filter lacks_order items))) @ rest" by auto
  with s r t show ?thesis by blast
qed

text \<open>
  A host with a valid record without run order, an entry named \<^verbatim>\<open>changes\<close>, an entry with
  run order and no result, and an empty entry: one diagnostic block, one record rendered.
\<close>

theorem C6_diagnostic_witness:
  "distinct (map fst [(''pkg_|-vim_|-vim_|-installed'',
                        PDict [(''result'', PBool True), (''changes'', PDict []),
                               (''comment'', PStr ''already installed'')]),
                      (''changes'', PDict [(''x'', PInt 1)]),
                      (''other'', PDict [(''__run_num__'', PInt 1)]),
                      (''empty'', PDict [])])
   \<and> (\<exists>fo fh tasks st items' rest.
         sorted_tasks [(''pkg_|-vim_|-vim_|-installed'',
                        PDict [(''result'', PBool True), (''changes'', PDict []),
                               (''comment'', PStr ''already installed'')])] = Inr tasks
       \<and> render_tasks plain_env default_opts fo fh 1 tasks
            ((init_state plain_env)\<lparr>hstrs := [order_error, ''<pformat>'']\<rparr>)
            [(''pkg_|-vim_|-vim_|-installed'',
                        PDict [(''result'', PBool True), (''changes'', PDict []),
                               (''comment'', PStr ''already installed'')]),
                      (''changes'', PDict [(''x'', PInt 1)]),
                      (''other'', PDict [(''__run_num__'', PInt 1)]),
                      (''empty'', PDict [])]
           = Inr (st, items')
       \<and> hstrs st = [order_error, ''<pformat>''] @ rest
       \<and> ''minionA:\<newline>The State execution failed to record the order in which all states were executed. The state return missing data is:\<newline><pformat>\<newline>\<newline>Summary for minionA\<newline>------------\<newline>Succeeded: 1\<newline>Failed:    0\<newline>------------\<newline>Total states run:     1''
          = join_str [nl] ((hcolor st @ ''minionA'' @ '':'' @ []) # hstrs st
                           @ summary plain_env default_opts ''minionA'' st))"
proof -
  let ?items = "[(''pkg_|-vim_|-vim_|-installed'',
                        PDict [(''result'', PBool True), (''changes'', PDict []),
                               (''comment'', PStr ''already installed'')]),
                      (''changes'', PDict [(''x'', PInt 1)]),
                      (''other'', PDict [(''__run_num__'', PInt 1)]),
                      (''empty'', PDict [])]"
  let ?text = "''minionA:\<newline>The State execution failed to record the order in which all states were executed. The state return missing data is:\<newline><pformat>\<newline>\<newline>Summary for minionA\<newline>------------\<newline>Succeeded: 1\<newline>Failed:    0\<newline>------------\<newline>Total states run:     1''"
  have d: "distinct (map fst ?items)" by simp
  have run: "format_host plain_env default_opts 0 ''minionA'' (PDict ?items) 1
               = Inr ((?text, False), PDict ?items)"
    by code_simp
  have f1: "filter has_result ?items = [(''pkg_|-vim_|-vim_|-installed'',
                        PDict [(''result'', PBool True), (''changes'', PDict []),
                               (''comment'', PStr ''already installed'')])]"
    by code_simp
  have f2: "concat (map (\<lambda>p. [order_error, pformat plain_env (snd p)]) (rev (filter lacks_order ?items)))
              = [order_error, ''<pformat>'']"
    by code_simp
  have f3: "(if strip_colors default_opts then strip_esc plain_env ''minionA'' else ''minionA'') = ''minionA''"
    by code_simp
  have f4: "colors plain_env ''ENDC'' = []" by code_simp
  from C6_diagnostic_and_validity_are_independent [OF d run]
  show ?thesis
    unfolding f1 f2 f3 f4 using d by blast
qed

text \<open>
  Claim C8, as stated: in filter mode a record whose \<^verbatim>\<open>str(result)\<close> is in the terse set
  gets a terse line. The skips of lines 456 to 471 come before the mode dispatch: with
  \<^verbatim>\<open>state_verbose\<close> unset, a successful record without changes gets no line although
  \<^verbatim>\<open>True\<close> is in both sets.
\<close>

theorem C8_filter_terse_skipped_counterexample:
  "highstate_output plain_env
     (default_opts\<lparr>state_output := ''filter'', state_output_terse := PList [PStr ''True''],
                    state_output_exclude := PList [PStr ''True'']\<rparr>) 0
     (PDict [(''minionA'', PDict [(''pkg_|-vim_|-vim_|-installed'',
        PDict [(''result'', PBool True), (''changes'', PDict []),
               (''comment'', PStr ''already installed''), (''__run_num__'', PInt 0)])])]) 1
   = Inr (PStr ''minionA:\<newline>\<newline>Summary for minionA\<newline>------------\<newline>Succeeded: 1\<newline>Failed:    0\<newline>------------\<newline>Total states run:     1'',
      PDict [(''minionA'', PDict [(''pkg_|-vim_|-vim_|-installed'',
        PDict [(''result'', PBool True), (''changes'', PDict []),
               (''comment'', PStr ''already installed''), (''__run_num__'', PInt 0)])])])"
  by code_simp

text \<open>
  Claim C8, amended: a round of the loop that returns does exactly one of three things. It
  adds no line (the record is skipped by the diff or verbose rule, or excluded by the
  filter), or it adds the one terse line, or it adds the full block (six lines or more, and
  at most one block of warnings). In filter mode a record that the diff and verbose rules do
  not skip gets the terse line when \<^verbatim>\<open>str(result)\<close> is in the terse set, also when it is in
  the exclude set too; a record whose \<^verbatim>\<open>str(result)\<close> is in the exclude set only gets no
  line.
\<close>

theorem C8_one_outcome_per_record:
  assumes run: "render_task e opt fo fh ind st tname ret = Inr (st', ret')"
    and res: "getitem ret ''result'' = Inr result"
    and cnt: "compressed_count opt tname = Inr count"
    and chg: "task_changes e fo fh ind ret count = Inr (schanged, ctext, inc, ret1)"
  shows "(((skip_rule opt result schanged \<or> mode_action e opt result schanged = Inr Skip)
            \<and> hstrs st' = hstrs st)
       \<or> (\<not> skip_rule opt result schanged \<and> mode_action e opt result schanged = Inr Terse
            \<and> (\<exists>comps msg. task_comps opt tname = Inr comps
                  \<and> format_terse e opt (task_color e result schanged) comps ret1 (state_tabular opt) = Inr msg
                  \<and> hstrs st' = hstrs st @ [msg]))
       \<or> (\<not> skip_rule opt result schanged \<and> mode_action e opt result schanged = Inr Full
            \<and> (\<exists>comps ls w. task_comps opt tname = Inr comps
                  \<and> full_block e opt (task_color e result schanged) comps ret1 ctext = Inr (ls, ret')
                  \<and> hstrs st' = hstrs st @ ls @ w \<and> 6 \<le> length ls \<and> length w \<le> 1)))
     \<and> (py_startswith (py_lower (state_output opt)) ''filter'' \<longrightarrow>
         \<not> skip_rule opt result schanged \<longrightarrow>
         py_contains_str (terse_set opt) (py_str e result) = Inr True \<longrightarrow>
         (\<exists>comps msg. format_terse e opt (task_color e result schanged) comps ret1 (state_tabular opt) = Inr msg
                \<and> hstrs st' = hstrs st @ [msg]))
     \<and> (py_startswith (py_lower (state_output opt)) ''filter'' \<longrightarrow>
         py_contains_str (terse_set opt) (py_str e result) = Inr False \<longrightarrow>
         py_contains_str (exclude_set opt) (py_str e result) = Inr True \<longrightarrow>
         hstrs st' = hstrs st)"
  using render_task_produces [OF run res cnt chg]
    mode_action_filter_terse [of opt e result schanged]
    mode_action_filter_exclude [of opt e result schanged]
  by auto

text \<open>
Filter mode with \<^verbatim>\<open>True\<close> in both sets and \<^verbatim>\<open>state_verbose\<close> set: the terse line.
\<close>

theorem C8_one_outcome_witness:
  "render_task plain_env
      (default_opts\<lparr>state_verbose := True, state_output := ''filter'',
                     state_output_terse := PList [PStr ''True''],
                     state_output_exclude := PList [PStr ''True'']\<rparr>)
      no_nested_output no_nested_host 1 (init_state plain_env) vim_name vim_record
     = Inr (\<lparr>rcounts = [(PInt 1, 1)], rdurations = [0], pdurations = [], hcolor = [],
             hstrs = [''  Name: vim - Function: pkg.installed - Result: Clean''],
             nchanges = 0\<rparr>, vim_record)
   \<and> (\<exists>comps msg.
         format_terse plain_env
           (default_opts\<lparr>state_verbose := True, state_output := ''filter'',
                          state_output_terse := PList [PStr ''True''],
                          state_output_exclude := PList [PStr ''True'']\<rparr>)
           (task_color plain_env (PBool True) False) comps vim_record (PBool False) = Inr msg
         \<and> [''  Name: vim - Function: pkg.installed - Result: Clean'']
             = hstrs (init_state plain_env) @ [msg])"
proof -
  let ?opt = "default_opts\<lparr>state_verbose := True, state_output := ''filter'',
                     state_output_terse := PList [PStr ''True''],
                     state_output_exclude := PList [PStr ''True'']\<rparr>"
  let ?st' = "\<lparr>rcounts = [(PInt 1, 1)], rdurations = [0], pdurations = [], hcolor = [],
             hstrs = [''  Name: vim - Function: pkg.installed - Result: Clean''],
             nchanges = 0\<rparr>"
  have run: "render_task plain_env ?opt no_nested_output no_nested_host 1 (init_state plain_env)
               vim_name vim_record = Inr (?st', vim_record)"
    by code_simp
  have res: "getitem vim_record ''result'' = Inr (PBool True)" by code_simp
  have cnt: "compressed_count ?opt vim_name = Inr 1" by code_simp
  have chg: "task_changes plain_env no_nested_output no_nested_host 1 vim_record 1
               = Inr (False, [], 0, vim_record)"
    by code_simp
  have f: "py_startswith (py_lower (state_output ?opt)) ''filter''" by code_simp
  have ns: "\<not> skip_rule ?opt (PBool True) False" by code_simp
  have t: "py_contains_str (terse_set ?opt) (py_str plain_env (PBool True)) = Inr True" by code_simp
  have tab: "state_tabular ?opt = PBool False" by code_simp
  from C8_one_outcome_per_record [OF run res cnt chg] f ns t
  have "\<exists>comps msg.
         format_terse plain_env ?opt (task_color plain_env (PBool True) False) comps vim_record
           (state_tabular ?opt) = Inr msg
         \<and> hstrs ?st' = hstrs (init_state plain_env) @ [msg]"
    by blast
  then have "\<exists>comps msg.
         format_terse plain_env ?opt (task_color plain_env (PBool True) False) comps vim_record
           (PBool False) = Inr msg
         \<and> [''  Name: vim - Function: pkg.installed - Result: Clean'']
             = hstrs (init_state plain_env) @ [msg]"
    by (simp only: tab hstate.simps)
  with run show ?thesis by blast
qed

subsection \<open>What a render does to its input\<close>
















end
